theory Spec2Isabelle
  imports Complex_Main "HOL-Library.Word" "HOL-Library.Sublist"
begin

section \<open>OpenImagen: the image-generation pipeline of \<open>core/imagen_generator.py\<close>\<close>

text \<open>
  The development embeds the class \<open>OpenImagen\<close> and the dataclasses of
  \<open>models/data_models.py\<close>. Conventions of the embedding:
  \<^item> a Python \<open>str\<close> is a \<open>string\<close>; a \<open>char\<close> stands for the code point of the same
    number, so the strings covered are those of code points below 256, and \<open>length\<close>
    is Python's \<open>len\<close>;
  \<^item> a Python \<open>bytes\<close> value is a list of 8-bit words;
  \<^item> \<open>Optional[T]\<close> is \<open>T option\<close>, with \<open>None\<close> for Python's \<open>None\<close>;
  \<^item> an exception (an instance of \<open>Exception\<close>, which is what the handlers of the source
    catch) is a value of \<open>py_exception\<close>, and a computation that may raise returns
    \<open>py_exception + 'a\<close>;
  \<^item> the remote endpoint, the clock and \<open>time.sleep\<close> are effects on an explicit
    \<open>world\<close>, threaded through the functions that use them.
\<close>

subsection \<open>Python values\<close>

type_synonym byte = "8 word"
type_synonym bytes = "byte list"

datatype py_exception =
    ValueError string
  | ImportError string
  | Exception string

text \<open>\<open>str(e)\<close>: the message of an exception.\<close>

fun str_exc :: "py_exception \<Rightarrow> string" where
  "str_exc (ValueError m) = m"
| "str_exc (ImportError m) = m"
| "str_exc (Exception m) = m"

text \<open>Truthiness, as \<open>if x:\<close>, \<open>not x\<close> and \<open>x or y\<close> use it on optional sequences.\<close>

fun truthy :: "'a list option \<Rightarrow> bool" where
  "truthy None = False"
| "truthy (Some xs) = (xs \<noteq> [])"

definition py_or :: "'a list option \<Rightarrow> 'a list option \<Rightarrow> 'a list option" where
  "py_or a b = (if truthy a then a else b)"

text \<open>\<open>sep.join(parts)\<close>.\<close>

fun join :: "string \<Rightarrow> string list \<Rightarrow> string" where
  "join sep [] = []"
| "join sep [x] = x"
| "join sep (x # y # ys) = x @ sep @ join sep (y # ys)"

text \<open>\<open>t in s\<close> on strings: \<open>t\<close> occurs in \<open>s\<close> as a contiguous substring.\<close>

fun str_in :: "string \<Rightarrow> string \<Rightarrow> bool" where
  "str_in t [] = (t = [])"
| "str_in t (c # cs) = (prefix t (c # cs) \<or> str_in t cs)"

text \<open>
  \<open>str.lower()\<close> on code points below 256: \<open>A\<close>..\<open>Z\<close> and the upper-case letters of the
  Latin-1 block (\<open>0xC0\<close>..\<open>0xDE\<close> without the multiplication sign \<open>0xD7\<close>) move up by 32,
  every other code point is kept.
\<close>

definition lower_char :: "char \<Rightarrow> char" where
  "lower_char c =
     (let n = (of_char c :: nat)
      in if (65 \<le> n \<and> n \<le> 90) \<or> (192 \<le> n \<and> n \<le> 222 \<and> n \<noteq> 215)
         then char_of (n + 32) else c)"

definition lower :: "string \<Rightarrow> string" where
  "lower s = map lower_char s"

text \<open>
  \<open>str.strip()\<close> removes leading and trailing white space (\<open>str.isspace\<close>; below 256 these
  are the code points 9..13, 28..32, \<open>0x85\<close> and \<open>0xA0\<close>); \<open>str.strip(chars)\<close> removes
  leading and trailing characters of \<open>chars\<close>.
\<close>

definition isspace :: "char \<Rightarrow> bool" where
  "isspace c =
     (let n = (of_char c :: nat)
      in (9 \<le> n \<and> n \<le> 13) \<or> (28 \<le> n \<and> n \<le> 32) \<or> n = 133 \<or> n = 160)"

definition strip_with :: "(char \<Rightarrow> bool) \<Rightarrow> string \<Rightarrow> string" where
  "strip_with p s = rev (dropWhile p (rev (dropWhile p s)))"

definition strip :: "string \<Rightarrow> string" where
  "strip s = strip_with isspace s"

definition strip_chars :: "string \<Rightarrow> string \<Rightarrow> string" where
  "strip_chars chars s = strip_with (\<lambda>c. c \<in> set chars) s"

text \<open>
  \<open>s.rsplit(sep, 1)[0]\<close> for a one-character separator: the part of \<open>s\<close> before the last
  occurrence of the separator, and \<open>s\<close> itself when the separator does not occur.
\<close>

definition rsplit1_head :: "char \<Rightarrow> string \<Rightarrow> string" where
  "rsplit1_head sep s =
     (if sep \<in> set s then rev (tl (dropWhile (\<lambda>c. c \<noteq> sep) (rev s))) else s)"

subsection \<open>The data model (\<open>models/data_models.py\<close>)\<close>

record CompanyData =
  name :: string
  industry :: string
  language :: string
  custom_prompt_instructions :: "string option"

record ImageRequest =
  headline :: string
  keyword :: string
  company_data :: CompanyData

record ImageResponse =
  success :: bool
  image_url :: string
  image_data :: "bytes option"
  alt_text :: string
  generation_time_seconds :: real
  error :: "string option"
  prompt_used :: "string option"
  scene_description :: "string option"

text \<open>
  The constructor call \<open>ImageResponse(success=..., ...)\<close>: the fields that a call site
  does not name take the defaults of the dataclass.
\<close>

definition ImageResponse_default :: "bool \<Rightarrow> ImageResponse" where
  "ImageResponse_default s =
     \<lparr> success = s, image_url = [], image_data = None, alt_text = [],
       generation_time_seconds = 0, error = None, prompt_used = None,
       scene_description = None \<rparr>"

subsection \<open>The response envelope of the remote endpoint\<close>

text \<open>
  The response object is read through \<open>hasattr\<close> and attribute access only. An attribute
  that is absent, or whose value is \<open>None\<close>, is \<open>None\<close> here where the source treats both
  alike. For \<open>content.parts\<close> the two differ: an absent attribute skips the candidate
  (line 281), a value that cannot be iterated raises inside the \<open>try\<close> and ends the
  whole extraction with \<open>None\<close> (lines 297 to 299).
\<close>

datatype py_data = Bytes bytes | NotBytes

datatype inline_data = InlineData (data: "py_data option")

datatype part = Part (inline_data: "inline_data option")

datatype parts_attr = NoParts | PartsNotIterable | Parts "part list"

datatype content = Content (parts: parts_attr)

datatype candidate = Candidate (content: "content option")

datatype response = Response (response_text: "string option") (candidates: "candidate list option")

subsection \<open>Response extraction (\<open>_extract_image_from_response\<close>)\<close>

text \<open>
  The two \<open>bytes\<close> literals of line 292, as the source writes them. Both are written
  with doubled backslashes, \<open>b'\\xff\\xd8\\xff'\<close> and \<open>b'\\x89PNG\\r\\n\\x1a\\n'\<close>, and a
  doubled backslash in a \<open>bytes\<close> literal is one backslash byte (\<open>0x5C\<close>) followed by
  the characters after it: the first literal is the twelve ASCII bytes of the text
  \<open>\xff\xd8\xff\<close>, the second the seventeen ASCII bytes of \<open>\x89PNG\r\n\x1a\n\<close>.
\<close>

definition jpeg_literal :: bytes where
  "jpeg_literal =
     [0x5C, 0x78, 0x66, 0x66, 0x5C, 0x78, 0x64, 0x38, 0x5C, 0x78, 0x66, 0x66]"

definition png_literal :: bytes where
  "png_literal =
     [0x5C, 0x78, 0x38, 0x39, 0x50, 0x4E, 0x47, 0x5C, 0x72, 0x5C, 0x6E, 0x5C, 0x78, 0x31,
      0x61, 0x5C, 0x6E]"

text \<open>
  The signatures that the comment of line 291 and the specification name: the JPEG magic
  bytes \<open>FF D8 FF\<close> and the PNG magic bytes \<open>89 50 4E 47 0D 0A 1A 0A\<close>.
\<close>

definition jpeg_magic :: bytes where
  "jpeg_magic = [0xFF, 0xD8, 0xFF]"

definition png_magic :: bytes where
  "png_magic = [0x89, 0x50, 0x4E, 0x47, 0x0D, 0x0A, 0x1A, 0x0A]"

text \<open>The test of lines 290 to 292 on the value of \<open>inline_data.data\<close>.\<close>

fun image_check :: "py_data \<Rightarrow> bytes option" where
  "image_check NotBytes = None"
| "image_check (Bytes b) =
     (if length b > 100
      then (if take 3 b = jpeg_literal \<or> take 8 b = png_literal then Some b else None)
      else None)"

text \<open>Lines 285 to 293 for one part.\<close>

fun extract_part :: "part \<Rightarrow> bytes option" where
  "extract_part (Part None) = None"
| "extract_part (Part (Some (InlineData None))) = None"
| "extract_part (Part (Some (InlineData (Some d)))) = image_check d"

text \<open>The inner loop: the first part that passes the test is returned.\<close>

fun extract_parts :: "part list \<Rightarrow> bytes option" where
  "extract_parts [] = None"
| "extract_parts (p # ps) =
     (case extract_part p of Some b \<Rightarrow> Some b | None \<Rightarrow> extract_parts ps)"

text \<open>
  The outer loop. \<open>Inl ()\<close> is the exception of iterating a value that is no sequence,
  which the handler of the function turns into \<open>None\<close>.
\<close>

fun extract_candidates :: "candidate list \<Rightarrow> unit + bytes option" where
  "extract_candidates [] = Inr None"
| "extract_candidates (Candidate None # cs) = extract_candidates cs"
| "extract_candidates (Candidate (Some (Content NoParts)) # cs) = extract_candidates cs"
| "extract_candidates (Candidate (Some (Content PartsNotIterable)) # cs) = Inl ()"
| "extract_candidates (Candidate (Some (Content (Parts ps))) # cs) =
     (case extract_parts ps of Some b \<Rightarrow> Inr (Some b) | None \<Rightarrow> extract_candidates cs)"

fun extract_image_from_response :: "response option \<Rightarrow> bytes option" where
  "extract_image_from_response None = None"
| "extract_image_from_response (Some (Response t None)) = None"
| "extract_image_from_response (Some (Response t (Some cs))) =
     (case extract_candidates cs of Inl e \<Rightarrow> None | Inr r \<Rightarrow> r)"

text \<open>
  A part that carries the byte payload \<open>b\<close>, and a response of one candidate with the
  parts \<open>ps\<close>: the shape in which the endpoint sends images.
\<close>

definition payload_part :: "bytes \<Rightarrow> part" where
  "payload_part b = Part (Some (InlineData (Some (Bytes b))))"

definition parts_response :: "part list \<Rightarrow> response" where
  "parts_response ps = Response None (Some [Candidate (Some (Content (Parts ps)))])"

subsection \<open>The fallback scene classifier (\<open>_create_intelligent_fallback\<close>)\<close>

text \<open>
  \<open>any(term in keyword_lower for term in [...])\<close> is \<open>list_ex\<close> over the literal list. The
  chain of \<open>if\<close>/\<open>elif\<close> is kept in the order of the source; the parameter \<open>industry\<close>
  is not read. The function uses neither the client nor the clock.
\<close>

definition create_intelligent_fallback :: "string \<Rightarrow> string \<Rightarrow> string" where
  "create_intelligent_fallback kw ind =
     (let keyword_lower = lower kw in
      if list_ex (\<lambda>term. str_in term keyword_lower)
           [''ai'', ''artificial intelligence'', ''machine learning'', ''automation'',
            ''algorithm'', ''data'', ''software'', ''tech'', ''digital'']
      then ''Professional team collaborating on '' @ kw @
           '' in modern office environment. Multiple screens with data visualizations, authentic working session with natural lighting and lived-in details.''
      else if list_ex (\<lambda>term. str_in term keyword_lower)
           [''management'', ''strategy'', ''leadership'', ''business'', ''operations'',
            ''planning'', ''growth'']
      then ''Business professionals engaged in strategic discussion about '' @ kw @
           ''. Conference room setting with whiteboards, documents, and authentic decision-making atmosphere.''
      else if list_ex (\<lambda>term. str_in term keyword_lower)
           [''safety'', ''security'', ''compliance'', ''risk'', ''audit'', ''quality'']
      then ''Professional reviewing '' @ kw @
           '' protocols in workplace setting. Documentation, monitoring equipment, and safety-focused environment with natural workflow.''
      else if list_ex (\<lambda>term. str_in term keyword_lower)
           [''customer'', ''service'', ''support'', ''client'', ''user'', ''experience'']
      then ''Service professional engaged in '' @ kw @
           '' activities. Customer-facing environment with modern tools, authentic service delivery moment.''
      else if list_ex (\<lambda>term. str_in term keyword_lower)
           [''financial'', ''finance'', ''budget'', ''cost'', ''roi'', ''investment'',
            ''accounting'']
      then ''Finance professional analyzing '' @ kw @
           '' data at workstation. Multiple monitors with charts and reports, traditional yet modern office environment.''
      else ''Professional team working on '' @ kw @
           '' project in contemporary workplace. Collaborative environment with modern tools, authentic work session with natural lighting and personal touches.'')"

text \<open>
  The classifier as the specification words it: a priority list of keyword families, each
  a set of terms with one template, read in order until the first family that has a term
  occurring in the lower-cased keyword; the generic template when there is none.
\<close>

definition tech_terms :: "string list" where
  "tech_terms = [''ai'', ''artificial intelligence'', ''machine learning'', ''automation'',
     ''algorithm'', ''data'', ''software'', ''tech'', ''digital'']"

definition management_terms :: "string list" where
  "management_terms = [''management'', ''strategy'', ''leadership'', ''business'',
     ''operations'', ''planning'', ''growth'']"

definition safety_terms :: "string list" where
  "safety_terms = [''safety'', ''security'', ''compliance'', ''risk'', ''audit'', ''quality'']"

definition customer_terms :: "string list" where
  "customer_terms = [''customer'', ''service'', ''support'', ''client'', ''user'',
     ''experience'']"

definition finance_terms :: "string list" where
  "finance_terms = [''financial'', ''finance'', ''budget'', ''cost'', ''roi'', ''investment'',
     ''accounting'']"

definition tech_template :: "string \<Rightarrow> string" where
  "tech_template kw = ''Professional team collaborating on '' @ kw @
     '' in modern office environment. Multiple screens with data visualizations, authentic working session with natural lighting and lived-in details.''"

definition management_template :: "string \<Rightarrow> string" where
  "management_template kw = ''Business professionals engaged in strategic discussion about '' @ kw @
     ''. Conference room setting with whiteboards, documents, and authentic decision-making atmosphere.''"

definition safety_template :: "string \<Rightarrow> string" where
  "safety_template kw = ''Professional reviewing '' @ kw @
     '' protocols in workplace setting. Documentation, monitoring equipment, and safety-focused environment with natural workflow.''"

definition customer_template :: "string \<Rightarrow> string" where
  "customer_template kw = ''Service professional engaged in '' @ kw @
     '' activities. Customer-facing environment with modern tools, authentic service delivery moment.''"

definition finance_template :: "string \<Rightarrow> string" where
  "finance_template kw = ''Finance professional analyzing '' @ kw @
     '' data at workstation. Multiple monitors with charts and reports, traditional yet modern office environment.''"

definition generic_template :: "string \<Rightarrow> string" where
  "generic_template kw = ''Professional team working on '' @ kw @
     '' project in contemporary workplace. Collaborative environment with modern tools, authentic work session with natural lighting and personal touches.''"

definition family_matches :: "string list \<Rightarrow> string \<Rightarrow> bool" where
  "family_matches terms kw = list_ex (\<lambda>term. str_in term (lower kw)) terms"

definition scene_families :: "(string list \<times> (string \<Rightarrow> string)) list" where
  "scene_families =
     [(tech_terms, tech_template), (management_terms, management_template),
      (safety_terms, safety_template), (customer_terms, customer_template),
      (finance_terms, finance_template)]"

fun first_match :: "(string list \<times> (string \<Rightarrow> string)) list \<Rightarrow> string \<Rightarrow> string" where
  "first_match [] kw = generic_template kw"
| "first_match ((terms, template) # families) kw =
     (if family_matches terms kw then template kw else first_match families kw)"

subsection \<open>The prompt builder (\<open>_build_professional_prompt\<close>)\<close>

text \<open>
  The separator of line 238 is the literal \<open>"\\n"\<close> of the source, written there with two
  backslashes: the two characters backslash and \<open>n\<close>.
\<close>

definition prompt_separator :: string where
  "prompt_separator = [CHR 0x5C, CHR ''n'']"

definition build_professional_prompt :: "ImageRequest \<Rightarrow> string \<Rightarrow> string" where
  "build_professional_prompt request scene =
     (let prompt_parts =
        [''Professional editorial photograph for a business article about '' @ [CHR 0x27]
           @ keyword request @ [CHR 0x27] @ ''.'',
         '''',
         ''Scene: '' @ scene,
         '''',
         ''Photography style:'',
         ''- Professional editorial quality (Canon 5D Mark IV, 35mm f/2.8)'',
         ''- Natural lighting with soft shadows, not harsh or uniform'',
         ''- Rule of thirds composition, authentic documentary style'',
         ''- Shallow depth of field with natural background blur'',
         ''- Modern color grading with professional warmth'',
         ''- Subtle film grain for authenticity'',
         '''',
         ''Editorial requirements:'',
         ''- Candid, authentic moment - not posed or stock-photo-like'',
         ''- Real workplace environment with natural details'',
         ''- Professional but approachable atmosphere'',
         ''- No text, logos, or branding visible in image'',
         ''- Diverse and inclusive representation when people are shown'',
         '''',
         ''Technical specs: 16:9 landscape, high resolution, editorial quality'',
         ''Style reference: Bloomberg Businessweek, Harvard Business Review''];
      prompt_parts =
        (if truthy (custom_prompt_instructions (company_data request))
         then prompt_parts @
              ['''',
               ''Additional requirements: '' @
                 the (custom_prompt_instructions (company_data request))]
         else prompt_parts)
      in join prompt_separator prompt_parts)"

text \<open>The sections of the prompt, named as the specification names them.\<close>

definition framing_line :: "string \<Rightarrow> string" where
  "framing_line kw =
     ''Professional editorial photograph for a business article about '' @ [CHR 0x27] @ kw
       @ [CHR 0x27] @ ''.''"

definition scene_line :: "string \<Rightarrow> string" where
  "scene_line scene = ''Scene: '' @ scene"

definition style_section :: "string list" where
  "style_section =
     [''Photography style:'',
      ''- Professional editorial quality (Canon 5D Mark IV, 35mm f/2.8)'',
      ''- Natural lighting with soft shadows, not harsh or uniform'',
      ''- Rule of thirds composition, authentic documentary style'',
      ''- Shallow depth of field with natural background blur'',
      ''- Modern color grading with professional warmth'',
      ''- Subtle film grain for authenticity'']"

definition editorial_section :: "string list" where
  "editorial_section =
     [''Editorial requirements:'',
      ''- Candid, authentic moment - not posed or stock-photo-like'',
      ''- Real workplace environment with natural details'',
      ''- Professional but approachable atmosphere'',
      ''- No text, logos, or branding visible in image'',
      ''- Diverse and inclusive representation when people are shown'']"

definition technical_section :: "string list" where
  "technical_section =
     [''Technical specs: 16:9 landscape, high resolution, editorial quality'',
      ''Style reference: Bloomberg Businessweek, Harvard Business Review'']"

definition additional_section :: "string \<Rightarrow> string list" where
  "additional_section instructions = [''Additional requirements: '' @ instructions]"

definition fixed_sections :: "string \<Rightarrow> string \<Rightarrow> string list" where
  "fixed_sections kw scene =
     [framing_line kw] @ [''''] @ [scene_line scene] @ [''''] @ style_section @ ['''']
       @ editorial_section @ [''''] @ technical_section"

subsection \<open>The alternative text (\<open>_generate_alt_text\<close>)\<close>

definition generate_alt_text :: "ImageRequest \<Rightarrow> string" where
  "generate_alt_text request =
     (let alt_text = ''Professional editorial image: '' @ headline request
      in if length alt_text > 125 then take 122 alt_text @ ''...'' else alt_text)"

subsection \<open>The request of the convenience function (\<open>generate_professional_image\<close>)\<close>

text \<open>Lines 350 to 360: the request that the convenience function builds from its arguments.\<close>

definition make_request ::
  "string \<Rightarrow> string \<Rightarrow> string \<Rightarrow> string \<Rightarrow> string option \<Rightarrow> ImageRequest" where
  "make_request h kw company_name ind custom_instructions =
     \<lparr> headline = h, keyword = kw,
       company_data = \<lparr> name = company_name, industry = ind, language = ''en'',
                        custom_prompt_instructions = custom_instructions \<rparr> \<rparr>"

subsection \<open>The world: remote endpoint, clock and sleep\<close>

text \<open>
  \<open>self.client.models.generate_content(model, contents, config)\<close> is the one remote
  operation. A \<open>transport\<close> stands for the client: it answers a call, given the model
  name, the contents and the number of calls made before, by an exception or by a
  response object (\<open>None\<close> when the client returns \<open>None\<close>). The \<open>world\<close> counts the
  calls, holds the clock that \<open>time.time()\<close> reads, and logs the arguments of
  \<open>time.sleep\<close>; the \<open>k\<close>-th call takes \<open>latency k\<close> seconds and a sleep of \<open>n\<close> takes
  \<open>n\<close> seconds.
\<close>

type_synonym transport = "string \<Rightarrow> string \<Rightarrow> nat \<Rightarrow> py_exception + response option"

record world =
  calls :: nat
  clock :: real
  sleeps :: "nat list"
  latency :: "nat \<Rightarrow> real"

definition generate_content ::
  "transport \<Rightarrow> string \<Rightarrow> string \<Rightarrow> world \<Rightarrow> (py_exception + response option) \<times> world" where
  "generate_content tr model contents w =
     (tr model contents (calls w),
      w\<lparr> calls := Suc (calls w), clock := clock w + latency w (calls w) \<rparr>)"

definition sleep :: "nat \<Rightarrow> world \<Rightarrow> world" where
  "sleep n w = w\<lparr> clock := clock w + real n, sleeps := sleeps w @ [n] \<rparr>"

definition IMAGE_MODEL :: string where
  "IMAGE_MODEL = ''gemini-3-pro-image-preview''"

definition TEXT_MODEL :: string where
  "TEXT_MODEL = ''gemini-3-pro-preview''"

subsection \<open>The scene resolver (\<open>_generate_intelligent_scene\<close>)\<close>

text \<open>
  The f-string of lines 132 to 147. The source writes each of its delimiting quotes with
  a backslash before it, which is no Python; it is read as the triple-quoted f-string it
  stands for, whose line breaks are newlines. The text is only sent to the endpoint.
\<close>

definition scene_prompt :: "string \<Rightarrow> string \<Rightarrow> string" where
  "scene_prompt kw ind =
     join [CHR 0x0A]
       [''Generate a professional, realistic scene description for a business editorial photograph about ''
          @ [CHR 0x22] @ kw @ [CHR 0x22] @ '' in the '' @ ind @ '' industry.'',
        '''',
        ''Requirements:'',
        ''- Describe a specific, photographable workplace scene (not abstract concepts)'',
        ''- Focus on real people doing authentic work related to this topic'',
        ''- Include environmental details that make it feel genuine and lived-in'',
        ''- Avoid generic office descriptions - be specific to the topic'',
        ''- Maximum 2 sentences, around 30-40 words'',
        ''- Professional but not sterile - show real work happening'',
        '''',
        ''Examples of good scene descriptions:'',
        ''- '' @ [CHR 0x22] @ ''Software engineer explaining code architecture to colleagues at a standing desk, laptops open with multiple monitors showing data visualizations. Coffee cups and notebooks scattered naturally.'' @ [CHR 0x22],
        ''- '' @ [CHR 0x22] @ ''Construction supervisor reviewing safety protocols with team on-site, hard hats and high-vis vests visible. Building materials and equipment in background under natural daylight.'' @ [CHR 0x22],
        ''- '' @ [CHR 0x22] @ ''Healthcare administrator analyzing patient flow data on tablet in hospital corridor. Medical staff moving naturally in background, professional but warm atmosphere.'' @ [CHR 0x22],
        '''',
        ''Generate scene description for: '' @ kw @ '' ('' @ ind @ '' industry)'']"

text \<open>
  Lines 160 to 165 on the text of the response: strip white space, then double quotes,
  then single quotes; a result of more than 200 characters is cut to 200, then to what
  precedes its last full stop, and a full stop is added.
\<close>

definition normalize_scene :: "string \<Rightarrow> string" where
  "normalize_scene t =
     (let scene_desc = strip_chars [CHR 0x27] (strip_chars [CHR 0x22] (strip t))
      in if length scene_desc > 200
         then rsplit1_head (CHR ''.'') (take 200 scene_desc) @ ''.''
         else scene_desc)"

text \<open>
  Every exception of the remote call is caught (line 167), and a response that is
  \<open>None\<close> or has no text falls through to the fallback of line 171.
\<close>

definition generate_intelligent_scene ::
  "transport \<Rightarrow> string \<Rightarrow> string \<Rightarrow> world \<Rightarrow> string \<times> world" where
  "generate_intelligent_scene tr kw ind w =
     (case generate_content tr TEXT_MODEL (scene_prompt kw ind) w of
        (Inr (Some resp), w1) \<Rightarrow>
          (if truthy (response_text resp)
           then (normalize_scene (the (response_text resp)), w1)
           else (create_intelligent_fallback kw ind, w1))
      | (Inr None, w1) \<Rightarrow> (create_intelligent_fallback kw ind, w1)
      | (Inl e, w1) \<Rightarrow> (create_intelligent_fallback kw ind, w1))"

subsection \<open>The image requester (\<open>_generate_with_retry\<close>)\<close>

text \<open>
  The loop \<open>for attempt in range(max_retries)\<close> from the iteration \<open>attempt\<close> on. The
  result is \<open>Inl e\<close> when the loop leaves by the \<open>raise\<close> of line 270, \<open>Inr (Some b)\<close> for
  the \<open>return image_bytes\<close> of line 260 and \<open>Inr None\<close> for the \<open>return None\<close> of line
  272. The bound is a natural number: a negative \<open>max_retries\<close> gives the empty range,
  as 0 does.
\<close>

function retry_loop ::
  "transport \<Rightarrow> string \<Rightarrow> nat \<Rightarrow> nat \<Rightarrow> world \<Rightarrow> (py_exception + bytes option) \<times> world" where
  "retry_loop tr prompt max_retries attempt w =
     (if attempt < max_retries
      then (case generate_content tr IMAGE_MODEL prompt w of
              (Inr resp, w1) \<Rightarrow>
                (let image_bytes = extract_image_from_response resp
                 in if truthy image_bytes then (Inr image_bytes, w1)
                    else retry_loop tr prompt max_retries (attempt + 1)
                           (sleep (5 * (attempt + 1)) w1))
            | (Inl e, w1) \<Rightarrow>
                (if attempt < max_retries - 1
                 then retry_loop tr prompt max_retries (attempt + 1)
                        (sleep (5 * (attempt + 1)) w1)
                 else (Inl e, w1)))
      else (Inr None, w))"
  by pat_completeness auto
termination
  by (relation "measure (\<lambda>(tr, prompt, max_retries, attempt, w). max_retries - attempt)") auto

definition generate_with_retry ::
  "transport \<Rightarrow> string \<Rightarrow> nat \<Rightarrow> world \<Rightarrow> (py_exception + bytes option) \<times> world" where
  "generate_with_retry tr prompt max_retries w = retry_loop tr prompt max_retries 0 w"

text \<open>
  An attempt fails when the call raises, or when it returns and the extraction finds no
  image in the response.
\<close>

definition attempt_failed :: "py_exception + response option \<Rightarrow> bool" where
  "attempt_failed r =
     (case r of Inl e \<Rightarrow> True | Inr resp \<Rightarrow> \<not> truthy (extract_image_from_response resp))"

subsection \<open>Sample worlds and transports\<close>

text \<open>
  A world before any call, in which every remote call takes two seconds, and three
  transports: one whose every call raises, one whose every call returns a response
  without candidates, and one that raises on its first two calls and from the third call
  on returns a response carrying a payload of 101 bytes that starts with the JPEG magic
  bytes.
\<close>

definition initial_world :: world where
  "initial_world = \<lparr> calls = 0, clock = 0, sleeps = [], latency = (\<lambda>k. 2) \<rparr>"

definition raising_transport :: transport where
  "raising_transport model contents k = Inl (Exception ''503 UNAVAILABLE'')"

definition empty_transport :: transport where
  "empty_transport model contents k = Inr (Some (Response None None))"

definition jpeg_payload :: bytes where
  "jpeg_payload = jpeg_magic @ replicate 98 0"

definition third_call_jpeg_transport :: transport where
  "third_call_jpeg_transport model contents k =
     (if k < 2 then Inl (Exception ''503 UNAVAILABLE'')
      else Inr (Some (parts_response [payload_part jpeg_payload])))"

subsection \<open>Base64 (\<open>base64.b64encode\<close>)\<close>

text \<open>
  The standard alphabet of RFC 4648 with \<open>=\<close> padding, which \<open>base64.b64encode\<close>
  produces; \<open>.decode()\<close> turns its ASCII bytes into the string of the same characters.
  \<open>b64decode\<close> is the strict decoder of that encoding: \<open>None\<close> on input that is not a
  padded sequence of groups of four alphabet characters.
\<close>

definition b64char :: "nat \<Rightarrow> char" where
  "b64char i =
     (if i < 26 then char_of (65 + i)
      else if i < 52 then char_of (71 + i)
      else if i < 62 then char_of (i - 4)
      else if i = 62 then CHR ''+'' else CHR ''/'')"

definition b64index :: "char \<Rightarrow> nat option" where
  "b64index c =
     (let n = (of_char c :: nat)
      in if 65 \<le> n \<and> n \<le> 90 then Some (n - 65)
         else if 97 \<le> n \<and> n \<le> 122 then Some (n - 71)
         else if 48 \<le> n \<and> n \<le> 57 then Some (n + 4)
         else if n = 43 then Some 62
         else if n = 47 then Some 63
         else None)"

text \<open>
  Three bytes \<open>a\<close>, \<open>b\<close>, \<open>c\<close> are 24 bits, read as four groups of six: the upper six
  bits of \<open>a\<close>; the lower two of \<open>a\<close> with the upper four of \<open>b\<close>; the lower four of
  \<open>b\<close> with the upper two of \<open>c\<close>; the lower six of \<open>c\<close>. A last group of one or two
  bytes is filled with zero bits and padded with \<open>=\<close>.
\<close>

fun b64encode :: "bytes \<Rightarrow> string" where
  "b64encode [] = []"
| "b64encode [a] =
     [b64char (unat a div 4), b64char (unat a mod 4 * 16), CHR ''='', CHR ''='']"
| "b64encode [a, b] =
     [b64char (unat a div 4), b64char (unat a mod 4 * 16 + unat b div 16),
      b64char (unat b mod 16 * 4), CHR ''='']"
| "b64encode (a # b # c # rest) =
     [b64char (unat a div 4), b64char (unat a mod 4 * 16 + unat b div 16),
      b64char (unat b mod 16 * 4 + unat c div 64), b64char (unat c mod 64)]
     @ b64encode rest"

fun b64decode :: "string \<Rightarrow> bytes option" where
  "b64decode [] = Some []"
| "b64decode (c1 # c2 # c3 # c4 # rest) =
     (case (b64index c1, b64index c2) of
        (Some i1, Some i2) \<Rightarrow>
          (if c3 = CHR ''='' \<and> c4 = CHR ''='' \<and> rest = []
           then Some [of_nat (i1 * 4 + i2 div 16)]
           else (case b64index c3 of
                   None \<Rightarrow> None
                 | Some i3 \<Rightarrow>
                     (if c4 = CHR ''='' \<and> rest = []
                      then Some [of_nat (i1 * 4 + i2 div 16),
                                 of_nat (i2 mod 16 * 16 + i3 div 4)]
                      else (case (b64index c4, b64decode rest) of
                              (Some i4, Some bs) \<Rightarrow>
                                Some (of_nat (i1 * 4 + i2 div 16)
                                      # of_nat (i2 mod 16 * 16 + i3 div 4)
                                      # of_nat (i3 mod 4 * 64 + i4) # bs)
                            | _ \<Rightarrow> None))))
      | _ \<Rightarrow> None)"
| "b64decode _ = None"

text \<open>The part of a data URI after its first comma.\<close>

definition after_comma :: "string \<Rightarrow> string" where
  "after_comma url = tl (dropWhile (\<lambda>c. c \<noteq> CHR '','') url)"

subsection \<open>The facade (\<open>generate_image\<close>)\<close>

text \<open>The two shapes of response that the facade constructs (lines 101 to 123).\<close>

definition success_response ::
  "ImageRequest \<Rightarrow> string \<Rightarrow> string \<Rightarrow> bytes \<Rightarrow> real \<Rightarrow> ImageResponse" where
  "success_response request prompt scene b generation_time =
     \<lparr> success = True,
       image_url = ''data:image/jpeg;base64,'' @ b64encode b,
       image_data = Some b,
       alt_text = generate_alt_text request,
       generation_time_seconds = generation_time,
       error = None,
       prompt_used = Some prompt,
       scene_description = Some scene \<rparr>"

definition failure_response :: "string \<Rightarrow> real \<Rightarrow> ImageResponse" where
  "failure_response message elapsed =
     (ImageResponse_default False)\<lparr> error := Some message, generation_time_seconds := elapsed \<rparr>"

text \<open>
  The body of the \<open>try\<close> of lines 82 to 115: \<open>Inl e\<close> when an exception leaves it. The
  scene resolver catches its own exceptions and the prompt builder raises none, so the
  exceptions of the body are those that the image requester raises.
\<close>

definition generate_image_try ::
  "transport \<Rightarrow> ImageRequest \<Rightarrow> world \<Rightarrow> (py_exception + ImageResponse) \<times> world" where
  "generate_image_try tr request w =
     (let start_time = clock w;
          (scene, w1) = generate_intelligent_scene tr (keyword request)
                          (industry (company_data request)) w;
          prompt = build_professional_prompt request scene;
          (r, w2) = generate_with_retry tr prompt 3 w1
      in case r of
           Inl e \<Rightarrow> (Inl e, w2)
         | Inr image_bytes \<Rightarrow>
             (if truthy image_bytes
              then (Inr (success_response request prompt scene (the image_bytes)
                           (clock w2 - start_time)), w2)
              else (Inr (failure_response ''Failed to generate image after retries''
                           (clock w2 - start_time)), w2)))"

text \<open>The whole method: the handler of lines 117 to 123 turns an exception into a response.\<close>

definition generate_image :: "transport \<Rightarrow> ImageRequest \<Rightarrow> world \<Rightarrow> ImageResponse \<times> world" where
  "generate_image tr request w =
     (case generate_image_try tr request w of
        (Inr resp, w') \<Rightarrow> (resp, w')
      | (Inl e, w') \<Rightarrow> (failure_response (str_exc e) (clock w' - clock w), w'))"

text \<open>
  Lines 98 to 123 as a function of the outcome of the image requester: the response that
  the facade returns when \<open>_generate_with_retry\<close> raised \<open>e\<close> (\<open>Inl e\<close>, lines 117 to
  123) or returned \<open>image_data\<close> (\<open>Inr image_data\<close>, lines 98 to 115), after \<open>elapsed\<close>
  seconds. \<open>facade_scene\<close>, \<open>facade_prompt\<close> and \<open>facade_outcome\<close> name the scene, the
  prompt and the outcome of the requester (with the world after it) in a run of
  \<open>generate_image\<close>.
\<close>

definition facade_response ::
  "ImageRequest \<Rightarrow> string \<Rightarrow> string \<Rightarrow> real \<Rightarrow> py_exception + bytes option \<Rightarrow> ImageResponse" where
  "facade_response request prompt scene elapsed outcome =
     (case outcome of
        Inl e \<Rightarrow> failure_response (str_exc e) elapsed
      | Inr image_bytes \<Rightarrow>
          (if truthy image_bytes
           then success_response request prompt scene (the image_bytes) elapsed
           else failure_response ''Failed to generate image after retries'' elapsed))"

definition facade_scene :: "transport \<Rightarrow> ImageRequest \<Rightarrow> world \<Rightarrow> string" where
  "facade_scene tr request w =
     fst (generate_intelligent_scene tr (keyword request) (industry (company_data request)) w)"

definition facade_prompt :: "transport \<Rightarrow> ImageRequest \<Rightarrow> world \<Rightarrow> string" where
  "facade_prompt tr request w = build_professional_prompt request (facade_scene tr request w)"

definition facade_outcome ::
  "transport \<Rightarrow> ImageRequest \<Rightarrow> world \<Rightarrow> (py_exception + bytes option) \<times> world" where
  "facade_outcome tr request w =
     generate_with_retry tr (facade_prompt tr request w) 3
       (snd (generate_intelligent_scene tr (keyword request)
               (industry (company_data request)) w))"

text \<open>A payload of 101 bytes that starts with the PNG magic bytes.\<close>

definition png_payload :: bytes where
  "png_payload = png_magic @ replicate 93 0"

subsection \<open>The constructor (\<open>OpenImagen.__init__\<close>, \<open>_get_api_key\<close>)\<close>

text \<open>\<open>os.getenv\<close> is a map from variable names to values, \<open>None\<close> for an unset variable.\<close>

definition get_api_key :: "(string \<Rightarrow> string option) \<Rightarrow> string option" where
  "get_api_key getenv =
     py_or (py_or (getenv ''GOOGLE_API_KEY'') (getenv ''GEMINI_API_KEY''))
       (getenv ''GOOGLE_GEMINI_API_KEY'')"

text \<open>Lines 46 to 48: the key of the generator, or the \<open>ValueError\<close> of line 48.\<close>

definition init_api_key :: "(string \<Rightarrow> string option) \<Rightarrow> string option \<Rightarrow> py_exception + string" where
  "init_api_key getenv api_key_arg =
     (let k = py_or api_key_arg (get_api_key getenv)
      in if \<not> truthy k
         then Inl (ValueError ''Google API key required. Set GOOGLE_API_KEY environment variable or pass api_key parameter.'')
         else Inr (the k))"

record OpenImagen =
  api_key :: string
  client :: transport

text \<open>
  Lines 50 to 62. \<open>genai\<close> is \<open>None\<close> when the package cannot be imported, and otherwise
  the constructor \<open>genai.Client\<close>, which may raise; an \<open>ImportError\<close> inside the \<open>try\<close> is
  replaced by the one of line 62, any other exception leaves the constructor.
\<close>

definition OpenImagen_init ::
  "(string \<Rightarrow> py_exception + transport) option \<Rightarrow> (string \<Rightarrow> string option) \<Rightarrow> string option
     \<Rightarrow> py_exception + OpenImagen" where
  "OpenImagen_init genai getenv api_key_arg =
     (case init_api_key getenv api_key_arg of
        Inl e \<Rightarrow> Inl e
      | Inr k \<Rightarrow>
          (case genai of
             None \<Rightarrow> Inl (ImportError ''google-genai package required. Install with: pip install google-genai'')
           | Some Client \<Rightarrow>
               (case Client k of
                  Inl (ImportError m) \<Rightarrow> Inl (ImportError ''google-genai package required. Install with: pip install google-genai'')
                | Inl e \<Rightarrow> Inl e
                | Inr c \<Rightarrow> Inr \<lparr> api_key = k, client = c \<rparr>)))"

text \<open>
  Two environments: one without any variable, and one in which \<open>GOOGLE_API_KEY\<close> is set
  to the empty string and \<open>GEMINI_API_KEY\<close> holds a key.
\<close>

definition unset_env :: "string \<Rightarrow> string option" where
  "unset_env v = None"

definition gemini_env :: "string \<Rightarrow> string option" where
  "gemini_env v =
     (if v = ''GOOGLE_API_KEY'' then Some ''''
      else if v = ''GEMINI_API_KEY'' then Some ''AIza-test-key''
      else None)"

section \<open>Properties\<close>

subsection \<open>Response extraction\<close>

lemma extract_parts_skip:
  "\<forall>p \<in> set pre. extract_part p = None \<Longrightarrow>
   extract_parts (pre @ ps) = extract_parts ps"
  by (induction pre) simp_all

lemma extract_parts_none:
  "\<forall>p \<in> set ps. extract_part p = None \<Longrightarrow> extract_parts ps = None"
  by (induction ps) simp_all

lemma image_check_none: "image_check d = None"
proof (cases d)
  case (Bytes b)
  have jpeg: "take 3 b \<noteq> jpeg_literal"
  proof
    assume "take 3 b = jpeg_literal"
    then have "length (take 3 b) = length jpeg_literal" by simp
    then show False by (simp add: jpeg_literal_def)
  qed
  have png: "take 8 b \<noteq> png_literal"
  proof
    assume "take 8 b = png_literal"
    then have "length (take 8 b) = length png_literal" by simp
    then show False by (simp add: png_literal_def)
  qed
  from Bytes jpeg png show ?thesis by simp
qed simp

lemma extract_part_none: "extract_part p = None"
  by (cases p rule: extract_part.cases) (simp_all add: image_check_none)

lemma extract_parts_all_none: "extract_parts ps = None"
  by (rule extract_parts_none) (simp add: extract_part_none)

lemma extract_candidates_none: "extract_candidates cs \<noteq> Inr (Some b)"
  by (induction cs rule: extract_candidates.induct) (simp_all add: extract_parts_all_none)

lemma extract_image_from_response_none: "extract_image_from_response r = None"
proof (cases r rule: extract_image_from_response.cases)
  case (3 t cs)
  then show ?thesis
    using extract_candidates_none [of cs]
    by (cases "extract_candidates cs") (auto simp: option.exhaust)
qed simp_all

text \<open>
  Claim C1 fails on the code. A payload of 101 bytes that starts with the JPEG magic bytes
  \<open>FF D8 FF\<close> is not accepted: line 292 compares its first three bytes with a literal
  of twelve bytes, and its first eight bytes with one of seventeen, so neither comparison
  holds for any payload, and the extraction answers \<open>None\<close>.
\<close>

theorem extraction_rejects_valid_jpeg:
  "take 3 (jpeg_magic @ replicate 98 0) = jpeg_magic
   \<and> length (jpeg_magic @ replicate 98 0) = 101
   \<and> image_check (Bytes (jpeg_magic @ replicate 98 0)) = None
   \<and> extract_image_from_response
        (Some (parts_response [payload_part (jpeg_magic @ replicate 98 0)])) = None"
  by (simp add: jpeg_magic_def image_check_none extract_image_from_response_none
      del: image_check.simps)

subsection \<open>The fallback scene classifier\<close>

text \<open>\<open>str_in\<close> is the substring test.\<close>

lemma str_in_iff: "str_in t s \<longleftrightarrow> (\<exists>ps ss. s = ps @ t @ ss)"
proof (induction s)
  case Nil
  then show ?case by auto
next
  case (Cons c cs)
  show ?case
  proof
    assume "str_in t (c # cs)"
    then consider "prefix t (c # cs)" | "str_in t cs" by auto
    then show "\<exists>ps ss. c # cs = ps @ t @ ss"
    proof cases
      case 1
      then obtain ss where "c # cs = t @ ss" by (auto simp: prefix_def)
      then have "c # cs = [] @ t @ ss" by simp
      then show ?thesis by blast
    next
      case 2
      with Cons obtain ps ss where "cs = ps @ t @ ss" by auto
      then have "c # cs = (c # ps) @ t @ ss" by simp
      then show ?thesis by blast
    qed
  next
    assume "\<exists>ps ss. c # cs = ps @ t @ ss"
    then obtain ps ss where eq: "c # cs = ps @ t @ ss" by auto
    show "str_in t (c # cs)"
    proof (cases ps)
      case Nil
      with eq have "prefix t (c # cs)" by (simp add: prefix_def)
      then show ?thesis by simp
    next
      case (Cons p ps')
      with eq have "cs = ps' @ t @ ss" by simp
      with Cons.IH show ?thesis by auto
    qed
  qed
qed

lemma fallback_refines:
  "create_intelligent_fallback kw ind = first_match scene_families kw"
  by (simp add: create_intelligent_fallback_def scene_families_def family_matches_def
      tech_terms_def management_terms_def safety_terms_def customer_terms_def finance_terms_def
      tech_template_def management_template_def safety_template_def customer_template_def
      finance_template_def generic_template_def Let_def)

lemma templates_distinct:
  "distinct [tech_template kw, management_template kw, safety_template kw,
     customer_template kw, finance_template kw, generic_template kw]"
  by (simp add: tech_template_def management_template_def safety_template_def
      customer_template_def finance_template_def generic_template_def)

text \<open>
  Claim C4. The fallback classifier is the first-match-wins function over the five
  families in the order tech, management, safety, customer, finance: it equals the
  priority-list reading \<open>first_match scene_families\<close> for every keyword and industry; a
  keyword whose lower-cased form contains a term of a family and no term of an earlier
  family gets that family's template around the keyword as given, whatever later families
  it matches; a keyword that matches no family gets the generic template; the six
  templates differ on every keyword, so the result is never the template of a later
  family. The function is total and takes no client: it makes no remote call.
\<close>

theorem fallback_first_match_wins:
  "create_intelligent_fallback kw ind = first_match scene_families kw
   \<and> map fst scene_families =
       [tech_terms, management_terms, safety_terms, customer_terms, finance_terms]
   \<and> (family_matches tech_terms kw \<longrightarrow>
        create_intelligent_fallback kw ind = tech_template kw)
   \<and> (\<not> family_matches tech_terms kw \<and> family_matches management_terms kw \<longrightarrow>
        create_intelligent_fallback kw ind = management_template kw)
   \<and> (\<not> family_matches tech_terms kw \<and> \<not> family_matches management_terms kw \<and>
        family_matches safety_terms kw \<longrightarrow>
        create_intelligent_fallback kw ind = safety_template kw)
   \<and> (\<not> family_matches tech_terms kw \<and> \<not> family_matches management_terms kw \<and>
        \<not> family_matches safety_terms kw \<and> family_matches customer_terms kw \<longrightarrow>
        create_intelligent_fallback kw ind = customer_template kw)
   \<and> (\<not> family_matches tech_terms kw \<and> \<not> family_matches management_terms kw \<and>
        \<not> family_matches safety_terms kw \<and> \<not> family_matches customer_terms kw \<and>
        family_matches finance_terms kw \<longrightarrow>
        create_intelligent_fallback kw ind = finance_template kw)
   \<and> (\<not> family_matches tech_terms kw \<and> \<not> family_matches management_terms kw \<and>
        \<not> family_matches safety_terms kw \<and> \<not> family_matches customer_terms kw \<and>
        \<not> family_matches finance_terms kw \<longrightarrow>
        create_intelligent_fallback kw ind = generic_template kw)
   \<and> distinct [tech_template kw, management_template kw, safety_template kw,
        customer_template kw, finance_template kw, generic_template kw]"
proof -
  have "create_intelligent_fallback kw ind = first_match scene_families kw"
    by (rule fallback_refines)
  moreover have "map fst scene_families =
      [tech_terms, management_terms, safety_terms, customer_terms, finance_terms]"
    by (simp add: scene_families_def)
  moreover have "first_match scene_families kw =
      (if family_matches tech_terms kw then tech_template kw
       else if family_matches management_terms kw then management_template kw
       else if family_matches safety_terms kw then safety_template kw
       else if family_matches customer_terms kw then customer_template kw
       else if family_matches finance_terms kw then finance_template kw
       else generic_template kw)"
    by (simp add: scene_families_def)
  ultimately show ?thesis
    using templates_distinct [of kw] by simp
qed

theorem fallback_first_match_wins_witness:
  "family_matches tech_terms ''Data Security AUDIT''
   \<and> family_matches safety_terms ''Data Security AUDIT''
   \<and> create_intelligent_fallback ''Data Security AUDIT'' ''Banking'' =
       tech_template ''Data Security AUDIT''
   \<and> create_intelligent_fallback ''Data Security AUDIT'' ''Banking'' \<noteq>
       safety_template ''Data Security AUDIT''
   \<and> create_intelligent_fallback ''Quarterly Budget'' ''Banking'' =
       finance_template ''Quarterly Budget''
   \<and> create_intelligent_fallback ''Gardening'' ''Leisure'' = generic_template ''Gardening''"
proof -
  have a: "family_matches tech_terms ''Data Security AUDIT''" by code_simp
  have b: "family_matches safety_terms ''Data Security AUDIT''" by code_simp
  have c: "\<not> family_matches tech_terms ''Quarterly Budget''
      \<and> \<not> family_matches management_terms ''Quarterly Budget''
      \<and> \<not> family_matches safety_terms ''Quarterly Budget''
      \<and> \<not> family_matches customer_terms ''Quarterly Budget''
      \<and> family_matches finance_terms ''Quarterly Budget''" by code_simp
  have d: "\<not> family_matches tech_terms ''Gardening''
      \<and> \<not> family_matches management_terms ''Gardening''
      \<and> \<not> family_matches safety_terms ''Gardening''
      \<and> \<not> family_matches customer_terms ''Gardening''
      \<and> \<not> family_matches finance_terms ''Gardening''" by code_simp
  have e1: "create_intelligent_fallback ''Data Security AUDIT'' ''Banking'' =
        tech_template ''Data Security AUDIT''"
    using a fallback_first_match_wins [of "''Data Security AUDIT''" "''Banking''"] by blast
  have "distinct [tech_template ''Data Security AUDIT'',
        management_template ''Data Security AUDIT'', safety_template ''Data Security AUDIT'',
        customer_template ''Data Security AUDIT'', finance_template ''Data Security AUDIT'',
        generic_template ''Data Security AUDIT'']"
    using fallback_first_match_wins [of "''Data Security AUDIT''" "''Banking''"] by blast
  then have e2: "tech_template ''Data Security AUDIT'' \<noteq> safety_template ''Data Security AUDIT''"
    by simp
  note e = e1 e2
  have f: "create_intelligent_fallback ''Quarterly Budget'' ''Banking'' =
        finance_template ''Quarterly Budget''"
    using c fallback_first_match_wins [of "''Quarterly Budget''" "''Banking''"] by blast
  have g: "create_intelligent_fallback ''Gardening'' ''Leisure'' = generic_template ''Gardening''"
    using d fallback_first_match_wins [of "''Gardening''" "''Leisure''"] by blast
  show ?thesis
    using a b e f g by simp
qed

subsection \<open>The alternative text\<close>

lemma alt_text_short:
  "length (headline r) \<le> 95 \<Longrightarrow>
   generate_alt_text r = ''Professional editorial image: '' @ headline r"
  by (simp add: generate_alt_text_def Let_def)

lemma alt_text_long:
  "95 < length (headline r) \<Longrightarrow>
   generate_alt_text r = take 122 (''Professional editorial image: '' @ headline r) @ ''...''"
  by (simp add: generate_alt_text_def Let_def)

lemma alt_text_long_length:
  "95 < length (headline r) \<Longrightarrow> length (generate_alt_text r) = 125"
  by (simp add: generate_alt_text_def Let_def)

text \<open>
  Claim C6 as stated fails: the fixed prefix has 30 characters, so a headline of 96
  characters gives 126 characters, above the cap of line 306, and is truncated although
  its length is at most 97.
\<close>

theorem alt_text_threshold_97_counterexample:
  "length (replicate 96 (CHR ''a'')) \<le> 97
   \<and> generate_alt_text
        (make_request (replicate 96 (CHR ''a'')) ''edge computing'' ''EdgeTech Solutions''
           ''Computing Infrastructure'' None)
      \<noteq> ''Professional editorial image: '' @ replicate 96 (CHR ''a'')"
proof -
  let ?r = "make_request (replicate 96 (CHR ''a'')) ''edge computing'' ''EdgeTech Solutions''
           ''Computing Infrastructure'' None"
  have l: "length (generate_alt_text ?r) = 125"
    by (rule alt_text_long_length) (simp add: make_request_def)
  have "generate_alt_text ?r \<noteq> ''Professional editorial image: '' @ replicate 96 (CHR ''a'')"
  proof
    assume "generate_alt_text ?r = ''Professional editorial image: '' @ replicate 96 (CHR ''a'')"
    then have "length (generate_alt_text ?r) =
        length (''Professional editorial image: '' @ replicate 96 (CHR ''a''))"
      by (rule arg_cong)
    with l show False by simp
  qed
  then show ?thesis by simp
qed

text \<open>
  Claim C6, amended: for every headline of at most 95 characters the alternative text is
  \<open>"Professional editorial image: "\<close> followed by the headline, untruncated; for every
  longer headline it is the first 122 characters of that string followed by \<open>"..."\<close>,
  which is 125 characters long.
\<close>

theorem alt_text_cap_125:
  "(length (headline r) \<le> 95 \<longrightarrow>
      generate_alt_text r = ''Professional editorial image: '' @ headline r)
   \<and> (95 < length (headline r) \<longrightarrow>
      length (generate_alt_text r) = 125
    \<and> generate_alt_text r =
        take 122 (''Professional editorial image: '' @ headline r) @ ''...'')"
  using alt_text_short [of r] alt_text_long [of r] alt_text_long_length [of r] by simp

theorem alt_text_cap_125_witness:
  "generate_alt_text
     (make_request ''Edge Computing Revolution'' ''edge computing'' ''EdgeTech Solutions''
        ''Computing Infrastructure'' None)
   = ''Professional editorial image: Edge Computing Revolution''
   \<and> length (generate_alt_text
        (make_request (replicate 96 (CHR ''a'')) ''edge computing'' ''EdgeTech Solutions''
           ''Computing Infrastructure'' None)) = 125"
  using alt_text_cap_125 [of "make_request ''Edge Computing Revolution'' ''edge computing''
        ''EdgeTech Solutions'' ''Computing Infrastructure'' None"]
    alt_text_cap_125 [of "make_request (replicate 96 (CHR ''a'')) ''edge computing''
        ''EdgeTech Solutions'' ''Computing Infrastructure'' None"]
  by (simp add: make_request_def)

subsection \<open>The prompt builder\<close>

lemma join_append:
  "xs \<noteq> [] \<Longrightarrow> ys \<noteq> [] \<Longrightarrow> join sep (xs @ ys) = join sep xs @ sep @ join sep ys"
proof (induction sep xs rule: join.induct)
  case (1 sep)
  then show ?case by simp
next
  case (2 sep x)
  then show ?case by (cases ys) simp_all
next
  case (3 sep x y ys)
  then show ?case by simp
qed

lemma prompt_parts_eq:
  "build_professional_prompt r scene =
     join prompt_separator
       (fixed_sections (keyword r) scene @
        (if truthy (custom_prompt_instructions (company_data r))
         then [''''] @ additional_section (the (custom_prompt_instructions (company_data r)))
         else []))"
  by (simp add: build_professional_prompt_def fixed_sections_def framing_line_def
      scene_line_def style_section_def editorial_section_def technical_section_def
      additional_section_def Let_def)

lemma fixed_sections_order:
  "join sep (fixed_sections kw scene) =
     framing_line kw @ sep @ sep @ scene_line scene @ sep @ sep @ join sep style_section
       @ sep @ sep @ join sep editorial_section @ sep @ sep @ join sep technical_section"
  by (simp add: fixed_sections_def style_section_def editorial_section_def
      technical_section_def)

lemma fixed_sections_nonempty: "fixed_sections kw scene \<noteq> []"
  by (simp add: fixed_sections_def)

text \<open>
  Claim C5 as stated fails: custom instructions supplied as the empty string are not
  \<open>None\<close>, yet the guard of line 232 tests their truth value, and the prompt has no
  "Additional requirements" section.
\<close>

theorem additional_section_iff_supplied_counterexample:
  "custom_prompt_instructions (company_data
      (make_request ''Edge Computing Revolution'' ''edge computing IoT distributed systems''
         ''EdgeTech Solutions'' ''Computing Infrastructure'' (Some ''''))) \<noteq> None
   \<and> \<not> str_in ''Additional requirements''
        (build_professional_prompt
          (make_request ''Edge Computing Revolution'' ''edge computing IoT distributed systems''
             ''EdgeTech Solutions'' ''Computing Infrastructure'' (Some ''''))
          ''Engineer at a rack of edge servers.'')"
proof -
  have "\<not> str_in ''Additional requirements''
        (build_professional_prompt
          (make_request ''Edge Computing Revolution'' ''edge computing IoT distributed systems''
             ''EdgeTech Solutions'' ''Computing Infrastructure'' (Some ''''))
          ''Engineer at a rack of edge servers.'')"
    by code_simp
  then show ?thesis by (simp add: make_request_def)
qed

text \<open>
  Claim C5, amended: for every request and scene description the prompt is the sequence
  of the framing line with the keyword, the scene text, the photography-style section,
  the editorial-requirements section and the technical-specs section, in this order, each
  two separated by an empty line, all lines joined by the separator of the builder; the
  "Additional requirements" section is present if and only if the custom instructions of
  the company data are neither \<open>None\<close> nor empty, and then it comes last, after an empty
  line, with the instructions as given.
\<close>

theorem prompt_sections_in_order:
  "join prompt_separator (fixed_sections (keyword r) scene) =
     framing_line (keyword r) @ prompt_separator @ prompt_separator
       @ scene_line scene @ prompt_separator @ prompt_separator
       @ join prompt_separator style_section @ prompt_separator @ prompt_separator
       @ join prompt_separator editorial_section @ prompt_separator @ prompt_separator
       @ join prompt_separator technical_section
   \<and> (custom_prompt_instructions (company_data r) = None
        \<or> custom_prompt_instructions (company_data r) = Some '''' \<longrightarrow>
        build_professional_prompt r scene =
          join prompt_separator (fixed_sections (keyword r) scene))
   \<and> (\<forall>instructions.
        custom_prompt_instructions (company_data r) = Some instructions
          \<and> instructions \<noteq> '''' \<longrightarrow>
        build_professional_prompt r scene =
          join prompt_separator (fixed_sections (keyword r) scene)
            @ prompt_separator @ prompt_separator
            @ ''Additional requirements: '' @ instructions)"
proof (intro conjI allI impI)
  show "join prompt_separator (fixed_sections (keyword r) scene) =
     framing_line (keyword r) @ prompt_separator @ prompt_separator
       @ scene_line scene @ prompt_separator @ prompt_separator
       @ join prompt_separator style_section @ prompt_separator @ prompt_separator
       @ join prompt_separator editorial_section @ prompt_separator @ prompt_separator
       @ join prompt_separator technical_section"
    by (rule fixed_sections_order)
next
  assume "custom_prompt_instructions (company_data r) = None
        \<or> custom_prompt_instructions (company_data r) = Some ''''"
  then have "\<not> truthy (custom_prompt_instructions (company_data r))" by auto
  then show "build_professional_prompt r scene =
      join prompt_separator (fixed_sections (keyword r) scene)"
    by (simp add: prompt_parts_eq)
next
  fix instructions
  assume a: "custom_prompt_instructions (company_data r) = Some instructions
      \<and> instructions \<noteq> ''''"
  then have "build_professional_prompt r scene =
      join prompt_separator
        (fixed_sections (keyword r) scene @ ['''', ''Additional requirements: '' @ instructions])"
    by (simp add: prompt_parts_eq additional_section_def)
  also have "\<dots> = join prompt_separator (fixed_sections (keyword r) scene)
      @ prompt_separator @ join prompt_separator ['''', ''Additional requirements: '' @ instructions]"
    by (rule join_append) (simp_all add: fixed_sections_nonempty)
  finally show "build_professional_prompt r scene =
      join prompt_separator (fixed_sections (keyword r) scene)
        @ prompt_separator @ prompt_separator
        @ ''Additional requirements: '' @ instructions"
    by simp
qed

theorem prompt_sections_in_order_witness:
  "build_professional_prompt
     (make_request ''AI Revolution in Healthcare'' ''artificial intelligence medical diagnosis''
        ''MedTech AI'' ''Healthcare Technology''
        (Some ''Focus on diverse medical professionals''))
     ''Radiologist reviewing scans.''
   = join prompt_separator
       (fixed_sections ''artificial intelligence medical diagnosis''
          ''Radiologist reviewing scans.'')
     @ prompt_separator @ prompt_separator
     @ ''Additional requirements: Focus on diverse medical professionals''
   \<and> build_professional_prompt
     (make_request ''AI Revolution in Healthcare'' ''artificial intelligence medical diagnosis''
        ''MedTech AI'' ''Healthcare Technology'' None)
     ''Radiologist reviewing scans.''
   = join prompt_separator
       (fixed_sections ''artificial intelligence medical diagnosis''
          ''Radiologist reviewing scans.'')"
  using prompt_sections_in_order
      [of "make_request ''AI Revolution in Healthcare''
             ''artificial intelligence medical diagnosis'' ''MedTech AI''
             ''Healthcare Technology'' (Some ''Focus on diverse medical professionals'')"
          "''Radiologist reviewing scans.''"]
    prompt_sections_in_order
      [of "make_request ''AI Revolution in Healthcare''
             ''artificial intelligence medical diagnosis'' ''MedTech AI''
             ''Healthcare Technology'' None"
          "''Radiologist reviewing scans.''"]
  by (simp add: make_request_def)

subsection \<open>Base64\<close>

lemma b64index_b64char: "i < 64 \<Longrightarrow> b64index (b64char i) = Some i"
  unfolding b64index_def b64char_def Let_def
  by (simp split: if_splits) arith

lemma b64index_pad: "b64index (CHR ''='') = None"
  by (simp add: b64index_def)

lemma b64char_not_pad: "i < 64 \<Longrightarrow> b64char i \<noteq> CHR ''=''"
  using b64index_b64char [of i] b64index_pad by auto

lemma unat_byte: "unat (a :: byte) < 256"
  using unsigned_less [of a] by simp

lemma sextet_bounds:
  assumes "a < (256::nat)" "b < 256" "c < 256"
  shows "a div 4 < 64" "a mod 4 * 16 < 64" "a mod 4 * 16 + b div 16 < 64"
    "b mod 16 * 4 < 64" "b mod 16 * 4 + c div 64 < 64" "c mod 64 < 64"
  using assms by simp_all

lemma upper_four: "b < (256::nat) \<Longrightarrow> b div 16 < 16"
  by simp

lemma upper_two: "c < (256::nat) \<Longrightarrow> c div 64 < 4"
  by simp

lemma regroup_first_pad: "a div 4 * 4 + (a mod 4 * 16) div 16 = (a::nat)"
  by simp

lemma regroup_first:
  "b < (256::nat) \<Longrightarrow> a div 4 * 4 + (a mod 4 * 16 + b div 16) div 16 = a"
  using upper_four [of b] by simp

lemma regroup_second_pad:
  "b < (256::nat) \<Longrightarrow> (a mod 4 * 16 + b div 16) mod 16 * 16 + (b mod 16 * 4) div 4 = b"
  using upper_four [of b] by simp

lemma regroup_second:
  "b < (256::nat) \<Longrightarrow> c < 256 \<Longrightarrow>
   (a mod 4 * 16 + b div 16) mod 16 * 16 + (b mod 16 * 4 + c div 64) div 4 = b"
  using upper_four [of b] upper_two [of c] by simp

lemma regroup_third:
  "c < (256::nat) \<Longrightarrow> (b mod 16 * 4 + c div 64) mod 4 * 64 + c mod 64 = c"
  using upper_two [of c] by simp

lemma b64decode_sextets:
  assumes "i1 < 64" "i2 < 64" "i3 < 64" "i4 < 64" "b64decode s = Some bs"
  shows "b64decode ([b64char i1, b64char i2, b64char i3, b64char i4] @ s) =
     Some (of_nat (i1 * 4 + i2 div 16) # of_nat (i2 mod 16 * 16 + i3 div 4)
           # of_nat (i3 mod 4 * 64 + i4) # bs)"
  using assms by (simp add: b64index_b64char b64char_not_pad del: of_nat_add of_nat_mult)

lemma b64decode_sextets_one:
  assumes "i1 < 64" "i2 < 64"
  shows "b64decode [b64char i1, b64char i2, CHR ''='', CHR ''=''] =
     Some [of_nat (i1 * 4 + i2 div 16)]"
  using assms by (simp add: b64index_b64char del: of_nat_add of_nat_mult)

lemma b64decode_sextets_two:
  assumes "i1 < 64" "i2 < 64" "i3 < 64"
  shows "b64decode [b64char i1, b64char i2, b64char i3, CHR ''=''] =
     Some [of_nat (i1 * 4 + i2 div 16), of_nat (i2 mod 16 * 16 + i3 div 4)]"
  using assms by (simp add: b64index_b64char b64char_not_pad del: of_nat_add of_nat_mult)

lemma b64_roundtrip: "b64decode (b64encode bs) = Some bs"
proof (induction bs rule: b64encode.induct)
  case 1
  show ?case by simp
next
  case (2 a)
  note bd = sextet_bounds [OF unat_byte [of a] unat_byte [of a] unat_byte [of a]]
  have "b64decode (b64encode [a]) =
      Some [of_nat (unat a div 4 * 4 + (unat a mod 4 * 16) div 16)]"
    unfolding b64encode.simps by (rule b64decode_sextets_one) (rule bd)+
  also have "unat a div 4 * 4 + (unat a mod 4 * 16) div 16 = unat a"
    by (rule regroup_first_pad)
  finally show ?case by simp
next
  case (3 a b)
  note bd = sextet_bounds [OF unat_byte [of a] unat_byte [of b] unat_byte [of a]]
  have "b64decode (b64encode [a, b]) =
      Some [of_nat (unat a div 4 * 4 + (unat a mod 4 * 16 + unat b div 16) div 16),
            of_nat ((unat a mod 4 * 16 + unat b div 16) mod 16 * 16
                    + (unat b mod 16 * 4) div 4)]"
    unfolding b64encode.simps by (rule b64decode_sextets_two) (rule bd)+
  also have "unat a div 4 * 4 + (unat a mod 4 * 16 + unat b div 16) div 16 = unat a"
    by (rule regroup_first [OF unat_byte])
  also have "(unat a mod 4 * 16 + unat b div 16) mod 16 * 16 + (unat b mod 16 * 4) div 4
      = unat b"
    by (rule regroup_second_pad [OF unat_byte])
  finally show ?case by simp
next
  case (4 a b c rest)
  note bd = sextet_bounds [OF unat_byte [of a] unat_byte [of b] unat_byte [of c]]
  have "b64decode (b64encode (a # b # c # rest)) =
      Some (of_nat (unat a div 4 * 4 + (unat a mod 4 * 16 + unat b div 16) div 16)
            # of_nat ((unat a mod 4 * 16 + unat b div 16) mod 16 * 16
                      + (unat b mod 16 * 4 + unat c div 64) div 4)
            # of_nat ((unat b mod 16 * 4 + unat c div 64) mod 4 * 64 + unat c mod 64)
            # rest)"
    unfolding b64encode.simps by (rule b64decode_sextets) (rule bd 4)+
  also have "unat a div 4 * 4 + (unat a mod 4 * 16 + unat b div 16) div 16 = unat a"
    by (rule regroup_first [OF unat_byte])
  also have "(unat a mod 4 * 16 + unat b div 16) mod 16 * 16
      + (unat b mod 16 * 4 + unat c div 64) div 4 = unat b"
    by (rule regroup_second [OF unat_byte unat_byte])
  also have "(unat b mod 16 * 4 + unat c div 64) mod 4 * 64 + unat c mod 64 = unat c"
    by (rule regroup_third [OF unat_byte])
  finally show ?case by simp
qed

subsection \<open>The retry loop\<close>

lemma generate_content_fst:
  "fst (generate_content tr m c w) = tr m c (calls w)"
  by (simp add: generate_content_def)

lemma generate_content_snd:
  "snd (generate_content tr m c w) =
     w\<lparr> calls := Suc (calls w), clock := clock w + latency w (calls w) \<rparr>"
  by (simp add: generate_content_def)

lemma retry_loop_done:
  "\<not> attempt < max_retries \<Longrightarrow> retry_loop tr prompt max_retries attempt w = (Inr None, w)"
  by (subst retry_loop.simps) simp

lemma retry_loop_raise_last:
  "attempt < max_retries \<Longrightarrow> \<not> attempt < max_retries - 1 \<Longrightarrow>
   tr IMAGE_MODEL prompt (calls w) = Inl e \<Longrightarrow>
   retry_loop tr prompt max_retries attempt w =
     (Inl e, snd (generate_content tr IMAGE_MODEL prompt w))"
  by (subst retry_loop.simps) (simp add: generate_content_def)

lemma retry_loop_raise_retry:
  "attempt < max_retries \<Longrightarrow> attempt < max_retries - 1 \<Longrightarrow>
   tr IMAGE_MODEL prompt (calls w) = Inl e \<Longrightarrow>
   retry_loop tr prompt max_retries attempt w =
     retry_loop tr prompt max_retries (attempt + 1)
       (sleep (5 * (attempt + 1)) (snd (generate_content tr IMAGE_MODEL prompt w)))"
  by (subst retry_loop.simps) (simp add: generate_content_def)

lemma retry_loop_image:
  "attempt < max_retries \<Longrightarrow> tr IMAGE_MODEL prompt (calls w) = Inr resp \<Longrightarrow>
   truthy (extract_image_from_response resp) \<Longrightarrow>
   retry_loop tr prompt max_retries attempt w =
     (Inr (extract_image_from_response resp), snd (generate_content tr IMAGE_MODEL prompt w))"
  by (subst retry_loop.simps) (simp add: generate_content_def)

lemma retry_loop_no_image:
  "attempt < max_retries \<Longrightarrow> tr IMAGE_MODEL prompt (calls w) = Inr resp \<Longrightarrow>
   \<not> truthy (extract_image_from_response resp) \<Longrightarrow>
   retry_loop tr prompt max_retries attempt w =
     retry_loop tr prompt max_retries (attempt + 1)
       (sleep (5 * (attempt + 1)) (snd (generate_content tr IMAGE_MODEL prompt w)))"
  by (subst retry_loop.simps) (simp add: generate_content_def)

lemma calls_after_attempt:
  "calls (sleep n (snd (generate_content tr m c w))) = Suc (calls w)"
  by (simp add: sleep_def generate_content_def)

lemma retry_loop_final:
  assumes "attempt + Suc n = max_retries"
    and "\<forall>i < n. attempt_failed (tr IMAGE_MODEL prompt (calls w + i))"
  shows "(tr IMAGE_MODEL prompt (calls w + n) = Inl e \<longrightarrow>
           fst (retry_loop tr prompt max_retries attempt w) = Inl e)
       \<and> (tr IMAGE_MODEL prompt (calls w + n) = Inr resp \<and>
            \<not> truthy (extract_image_from_response resp) \<longrightarrow>
           fst (retry_loop tr prompt max_retries attempt w) = Inr None)"
  using assms
proof (induction n arbitrary: attempt w)
  case 0
  then have lt: "attempt < max_retries" and last: "\<not> attempt < max_retries - 1"
    and nxt: "\<not> attempt + 1 < max_retries"
    by auto
  show ?case
  proof (intro conjI impI)
    assume "tr IMAGE_MODEL prompt (calls w + 0) = Inl e"
    then show "fst (retry_loop tr prompt max_retries attempt w) = Inl e"
      using retry_loop_raise_last [where tr = tr and prompt = prompt and w = w and e = e,
          OF lt last]
      by simp
  next
    assume "tr IMAGE_MODEL prompt (calls w + 0) = Inr resp
        \<and> \<not> truthy (extract_image_from_response resp)"
    then show "fst (retry_loop tr prompt max_retries attempt w) = Inr None"
      using retry_loop_no_image [where tr = tr and prompt = prompt and w = w
          and resp = resp, OF lt]
        retry_loop_done [OF nxt]
      by simp
  qed
next
  case (Suc n)
  let ?w' = "sleep (5 * (attempt + 1)) (snd (generate_content tr IMAGE_MODEL prompt w))"
  from Suc.prems have lt: "attempt < max_retries" and more: "attempt < max_retries - 1"
    and nxt: "(attempt + 1) + Suc n = max_retries"
    by auto
  from Suc.prems(2) have now: "attempt_failed (tr IMAGE_MODEL prompt (calls w))"
    by (metis add.right_neutral zero_less_Suc)
  have step: "retry_loop tr prompt max_retries attempt w =
      retry_loop tr prompt max_retries (attempt + 1) ?w'"
  proof (cases "tr IMAGE_MODEL prompt (calls w)")
    case (Inl e')
    then show ?thesis
      using retry_loop_raise_retry [where tr = tr and prompt = prompt and w = w, OF lt more]
      by simp
  next
    case (Inr resp')
    with now have "\<not> truthy (extract_image_from_response resp')"
      by (simp add: attempt_failed_def)
    with Inr show ?thesis
      using retry_loop_no_image [where tr = tr and prompt = prompt and w = w, OF lt]
      by simp
  qed
  have c: "calls ?w' = Suc (calls w)" by (rule calls_after_attempt)
  have later: "\<forall>i < n. attempt_failed (tr IMAGE_MODEL prompt (calls ?w' + i))"
    using Suc.prems(2) c by (metis Suc_less_eq add_Suc_shift)
  from Suc.IH [OF nxt later] show ?case
    unfolding step c by simp
qed
text \<open>
  Claim C8. When every attempt before the last one has failed, an exception that the
  transport raises on the last attempt is the result of the loop (it is raised to the
  caller), whereas a last attempt that returns a response in which no image is found
  makes the loop return \<open>None\<close>.
\<close>

theorem retry_exhaustion_asymmetric:
  assumes "0 < max_retries"
    and "\<forall>i < max_retries - 1. attempt_failed (tr IMAGE_MODEL prompt (calls w + i))"
  shows "(tr IMAGE_MODEL prompt (calls w + (max_retries - 1)) = Inl e \<longrightarrow>
           fst (generate_with_retry tr prompt max_retries w) = Inl e)
       \<and> (tr IMAGE_MODEL prompt (calls w + (max_retries - 1)) = Inr resp \<and>
            extract_image_from_response resp = None \<longrightarrow>
           fst (generate_with_retry tr prompt max_retries w) = Inr None)"
proof -
  from assms(1) have "0 + Suc (max_retries - 1) = max_retries" by simp
  from retry_loop_final [where tr = tr and prompt = prompt and w = w and e = e
      and resp = resp, OF this assms(2)]
  show ?thesis
    by (auto simp: generate_with_retry_def)
qed

theorem retry_exhaustion_asymmetric_witness:
  "fst (generate_with_retry raising_transport ''a prompt'' 3 initial_world) =
     Inl (Exception ''503 UNAVAILABLE'')
   \<and> fst (generate_with_retry empty_transport ''a prompt'' 3 initial_world) = Inr None"
proof -
  have a: "\<forall>i < 3 - 1. attempt_failed
      (raising_transport IMAGE_MODEL ''a prompt'' (calls initial_world + i))"
    by (simp add: attempt_failed_def raising_transport_def)
  have b: "\<forall>i < 3 - 1. attempt_failed
      (empty_transport IMAGE_MODEL ''a prompt'' (calls initial_world + i))"
    by (simp add: attempt_failed_def empty_transport_def)
  have p: "(0::nat) < 3" by simp
  show ?thesis
    using retry_exhaustion_asymmetric [where tr = raising_transport
        and prompt = "''a prompt''" and w = initial_world
        and e = "Exception ''503 UNAVAILABLE''", OF p a]
      retry_exhaustion_asymmetric [where tr = empty_transport
        and prompt = "''a prompt''" and w = initial_world
        and resp = "Some (Response None None)", OF p b]
    by (simp add: raising_transport_def empty_transport_def)
qed

lemma retry_loop_never_image:
  "max_retries - attempt = n \<Longrightarrow>
   fst (retry_loop tr prompt max_retries attempt w) \<noteq> Inr (Some b)"
proof (induction n arbitrary: attempt w)
  case 0
  then have "\<not> attempt < max_retries" by simp
  then show ?case by (simp add: retry_loop_done)
next
  case (Suc n)
  then have lt: "attempt < max_retries" and nxt: "max_retries - (attempt + 1) = n"
    by auto
  show ?case
  proof (cases "tr IMAGE_MODEL prompt (calls w)")
    case (Inl e)
    show ?thesis
    proof (cases "attempt < max_retries - 1")
      case True
      show ?thesis
        unfolding retry_loop_raise_retry [where tr = tr and prompt = prompt and w = w,
            OF lt True Inl]
        by (rule Suc.IH [OF nxt])
    next
      case False
      show ?thesis
        unfolding retry_loop_raise_last [where tr = tr and prompt = prompt and w = w,
            OF lt False Inl]
        by simp
    qed
  next
    case (Inr resp)
    have "\<not> truthy (extract_image_from_response resp)"
      by (simp add: extract_image_from_response_none)
    from retry_loop_no_image [where tr = tr and prompt = prompt and w = w,
        OF lt Inr this]
    show ?thesis
      using Suc.IH [OF nxt] by simp
  qed
qed

lemma generate_with_retry_never_image:
  "fst (generate_with_retry tr prompt max_retries w) \<noteq> Inr (Some b)"
  unfolding generate_with_retry_def by (rule retry_loop_never_image) simp

text \<open>
  Claim C7 fails on the code. With a transport that raises on attempts 1 and 2 and on
  attempt 3 returns a response with a JPEG payload of 101 bytes, the loop makes its three
  calls and waits 5 and 10 between them, but the extraction rejects the payload (the
  defect of claim C1), so the loop waits another 15 and returns \<open>None\<close>.
\<close>

theorem retry_third_attempt_jpeg_lost:
  "third_call_jpeg_transport IMAGE_MODEL ''a prompt'' 0 = Inl (Exception ''503 UNAVAILABLE'')
   \<and> third_call_jpeg_transport IMAGE_MODEL ''a prompt'' 1 = Inl (Exception ''503 UNAVAILABLE'')
   \<and> third_call_jpeg_transport IMAGE_MODEL ''a prompt'' 2 =
       Inr (Some (parts_response [payload_part jpeg_payload]))
   \<and> take 3 jpeg_payload = [0xFF, 0xD8, 0xFF] \<and> length jpeg_payload = 101
   \<and> fst (generate_with_retry third_call_jpeg_transport ''a prompt'' 3 initial_world) = Inr None
   \<and> calls (snd (generate_with_retry third_call_jpeg_transport ''a prompt'' 3 initial_world)) = 3
   \<and> sleeps (snd (generate_with_retry third_call_jpeg_transport ''a prompt'' 3 initial_world))
       = [5, 10, 15]"
  by (simp add: generate_with_retry_def generate_content_def sleep_def
      third_call_jpeg_transport_def initial_world_def extract_image_from_response_none
      jpeg_payload_def jpeg_magic_def)

subsection \<open>The facade\<close>

lemma generate_image_try_cases:
  obtains
    (raised) e where "fst (generate_image_try tr request w) = Inl e"
  | (no_image) "fst (generate_image_try tr request w) =
        Inr (failure_response ''Failed to generate image after retries''
               (clock (snd (generate_image_try tr request w)) - clock w))"
proof -
  obtain scene w1 where s: "generate_intelligent_scene tr (keyword request)
      (industry (company_data request)) w = (scene, w1)"
    by (cases "generate_intelligent_scene tr (keyword request)
      (industry (company_data request)) w")
  obtain r w2 where g: "generate_with_retry tr (build_professional_prompt request scene) 3 w1
      = (r, w2)"
    by (cases "generate_with_retry tr (build_professional_prompt request scene) 3 w1")
  show thesis
  proof (cases r)
    case (Inl e)
    with s g have "fst (generate_image_try tr request w) = Inl e"
      by (simp add: generate_image_try_def Let_def)
    then show ?thesis by (rule raised)
  next
    case (Inr image_bytes)
    have "r \<noteq> Inr (Some b)" for b
      using generate_with_retry_never_image
        [of tr "build_professional_prompt request scene" 3 w1 b] g
      by simp
    with Inr have "image_bytes = None" by (cases image_bytes) auto
    with Inr s g have "fst (generate_image_try tr request w) =
        Inr (failure_response ''Failed to generate image after retries''
               (clock (snd (generate_image_try tr request w)) - clock w))"
      by (simp add: generate_image_try_def Let_def)
    then show ?thesis by (rule no_image)
  qed
qed

lemma generate_image_failure:
  "\<exists>message. fst (generate_image tr request w) =
     failure_response message (clock (snd (generate_image tr request w)) - clock w)"
proof (cases rule: generate_image_try_cases [of tr request w])
  case (raised e)
  then show ?thesis
    by (cases "generate_image_try tr request w") (auto simp: generate_image_def)
next
  case no_image
  then show ?thesis
    by (cases "generate_image_try tr request w") (auto simp: generate_image_def)
qed


lemma generate_image_facade_response:
  "generate_image tr request w =
     (facade_response request (facade_prompt tr request w) (facade_scene tr request w)
        (clock (snd (facade_outcome tr request w)) - clock w)
        (fst (facade_outcome tr request w)),
      snd (facade_outcome tr request w))"
  by (simp add: generate_image_def generate_image_try_def facade_response_def
      facade_outcome_def facade_prompt_def facade_scene_def Let_def split_beta
      split: sum.splits)

lemma facade_response_raised:
  "facade_response request prompt scene elapsed (Inl e) = failure_response (str_exc e) elapsed"
  by (simp add: facade_response_def)

lemma facade_response_no_image:
  "\<not> truthy image_bytes \<Longrightarrow>
   facade_response request prompt scene elapsed (Inr image_bytes) =
     failure_response ''Failed to generate image after retries'' elapsed"
  by (simp add: facade_response_def)

lemma facade_response_image:
  "b \<noteq> [] \<Longrightarrow>
   facade_response request prompt scene elapsed (Inr (Some b)) =
     success_response request prompt scene b elapsed"
  by (simp add: facade_response_def)

lemma facade_response_cases:
  obtains
    (failure) message where
      "\<not> (\<exists>b. outcome = Inr (Some b) \<and> b \<noteq> [])"
      "facade_response request prompt scene elapsed outcome = failure_response message elapsed"
  | (image) b where "outcome = Inr (Some b)" "b \<noteq> []"
      "facade_response request prompt scene elapsed outcome =
         success_response request prompt scene b elapsed"
proof (cases outcome)
  case (Inl e)
  then show ?thesis
    using failure [of "str_exc e"] by (simp add: facade_response_raised)
next
  case (Inr image_bytes)
  show ?thesis
  proof (cases "truthy image_bytes")
    case True
    then obtain b where "image_bytes = Some b" "b \<noteq> []"
      by (cases image_bytes) auto
    with Inr show ?thesis
      using image [of b] by (simp add: facade_response_image)
  next
    case False
    with Inr have "\<not> (\<exists>b. outcome = Inr (Some b) \<and> b \<noteq> [])" by auto
    with Inr False show ?thesis
      using failure [of "''Failed to generate image after retries''"]
      by (simp add: facade_response_no_image)
  qed
qed

lemma failure_response_fields:
  "success (failure_response message elapsed) = False"
  "image_data (failure_response message elapsed) = None"
  "error (failure_response message elapsed) = Some message"
  "image_url (failure_response message elapsed) = []"
  by (simp_all add: failure_response_def ImageResponse_default_def)

lemma success_response_fields:
  "success (success_response request prompt scene b elapsed) = True"
  "image_data (success_response request prompt scene b elapsed) = Some b"
  "error (success_response request prompt scene b elapsed) = None"
  "image_url (success_response request prompt scene b elapsed) =
     ''data:image/jpeg;base64,'' @ b64encode b"
  by (simp_all add: success_response_def)

lemma empty_scene:
  "generate_intelligent_scene empty_transport kw ind initial_world =
     (create_intelligent_fallback kw ind,
      \<lparr> calls = Suc 0, clock = 2, sleeps = [], latency = (\<lambda>k. 2) \<rparr>)"
  by (simp add: generate_intelligent_scene_def generate_content_def empty_transport_def
      initial_world_def)

lemma empty_retry:
  "generate_with_retry empty_transport prompt 3
     \<lparr> calls = Suc 0, clock = 2, sleeps = [], latency = (\<lambda>k. 2) \<rparr> =
     (Inr None, \<lparr> calls = 4, clock = 38, sleeps = [5, 10, 15], latency = (\<lambda>k. 2) \<rparr>)"
  by (simp add: generate_with_retry_def generate_content_def sleep_def
      empty_transport_def)

text \<open>
  Claim C2. Every response of \<open>generate_image\<close> has \<open>success\<close> true exactly when its
  \<open>image_data\<close> is present, non-empty and starts with the JPEG or the PNG magic bytes,
  and \<open>success\<close> false exactly when its \<open>error\<close> is set; it is either a success without
  error or a failure without image data. The response of \<open>generate_image\<close> is the
  packaging \<open>facade_response\<close> of the outcome of the image requester, and the packaging
  keeps the invariant for every outcome: \<open>success\<close> is true exactly when the requester
  returned non-empty bytes, which are then the \<open>image_data\<close>, with no \<open>error\<close>; in every
  other case \<open>error\<close> is set and there is no \<open>image_data\<close>; and when the bytes of the
  outcome carry a recognized signature, \<open>success\<close> is true exactly when \<open>image_data\<close> is
  non-empty with that signature.
\<close>

theorem response_invariant:
  "(success (fst (generate_image tr request w)) \<longleftrightarrow>
      (\<exists>b. image_data (fst (generate_image tr request w)) = Some b \<and> b \<noteq> [] \<and>
           (take 3 b = jpeg_magic \<or> take 8 b = png_magic)))
   \<and> (\<not> success (fst (generate_image tr request w)) \<longleftrightarrow>
      error (fst (generate_image tr request w)) \<noteq> None)
   \<and> (success (fst (generate_image tr request w))
        \<and> image_data (fst (generate_image tr request w)) \<noteq> None
        \<and> error (fst (generate_image tr request w)) = None
      \<or> \<not> success (fst (generate_image tr request w))
        \<and> image_data (fst (generate_image tr request w)) = None
        \<and> error (fst (generate_image tr request w)) \<noteq> None)
   \<and> fst (generate_image tr request w) =
       facade_response request (facade_prompt tr request w) (facade_scene tr request w)
         (clock (snd (generate_image tr request w)) - clock w)
         (fst (facade_outcome tr request w))
   \<and> (success (facade_response request prompt scene elapsed outcome) \<longleftrightarrow>
        (\<exists>b. outcome = Inr (Some b) \<and> b \<noteq> []))
   \<and> (\<forall>b. outcome = Inr (Some b) \<and> b \<noteq> [] \<longrightarrow>
        image_data (facade_response request prompt scene elapsed outcome) = Some b)
   \<and> (success (facade_response request prompt scene elapsed outcome) \<longleftrightarrow>
        (\<exists>b. image_data (facade_response request prompt scene elapsed outcome) = Some b
             \<and> b \<noteq> []))
   \<and> (\<not> success (facade_response request prompt scene elapsed outcome) \<longleftrightarrow>
        error (facade_response request prompt scene elapsed outcome) \<noteq> None)
   \<and> (success (facade_response request prompt scene elapsed outcome)
        \<and> image_data (facade_response request prompt scene elapsed outcome) \<noteq> None
        \<and> error (facade_response request prompt scene elapsed outcome) = None
      \<or> \<not> success (facade_response request prompt scene elapsed outcome)
        \<and> image_data (facade_response request prompt scene elapsed outcome) = None
        \<and> error (facade_response request prompt scene elapsed outcome) \<noteq> None)
   \<and> ((\<forall>b. outcome = Inr (Some b) \<longrightarrow> take 3 b = jpeg_magic \<or> take 8 b = png_magic) \<longrightarrow>
        (success (facade_response request prompt scene elapsed outcome) \<longleftrightarrow>
           (\<exists>b. image_data (facade_response request prompt scene elapsed outcome) = Some b
                \<and> b \<noteq> [] \<and> (take 3 b = jpeg_magic \<or> take 8 b = png_magic))))"
proof -
  obtain message where g: "fst (generate_image tr request w) =
      failure_response message (clock (snd (generate_image tr request w)) - clock w)"
    using generate_image_failure by blast
  have on_generate:
    "(success (fst (generate_image tr request w)) \<longleftrightarrow>
        (\<exists>b. image_data (fst (generate_image tr request w)) = Some b \<and> b \<noteq> [] \<and>
             (take 3 b = jpeg_magic \<or> take 8 b = png_magic)))
     \<and> (\<not> success (fst (generate_image tr request w)) \<longleftrightarrow>
        error (fst (generate_image tr request w)) \<noteq> None)
     \<and> (success (fst (generate_image tr request w))
          \<and> image_data (fst (generate_image tr request w)) \<noteq> None
          \<and> error (fst (generate_image tr request w)) = None
        \<or> \<not> success (fst (generate_image tr request w))
          \<and> image_data (fst (generate_image tr request w)) = None
          \<and> error (fst (generate_image tr request w)) \<noteq> None)"
    by (simp add: g failure_response_fields)
  have tie: "fst (generate_image tr request w) =
       facade_response request (facade_prompt tr request w) (facade_scene tr request w)
         (clock (snd (generate_image tr request w)) - clock w)
         (fst (facade_outcome tr request w))"
    by (simp add: generate_image_facade_response)
  have packaging:
    "(success (facade_response request prompt scene elapsed outcome) \<longleftrightarrow>
        (\<exists>b. outcome = Inr (Some b) \<and> b \<noteq> []))
     \<and> (\<forall>b. outcome = Inr (Some b) \<and> b \<noteq> [] \<longrightarrow>
        image_data (facade_response request prompt scene elapsed outcome) = Some b)
     \<and> (success (facade_response request prompt scene elapsed outcome) \<longleftrightarrow>
        (\<exists>b. image_data (facade_response request prompt scene elapsed outcome) = Some b
             \<and> b \<noteq> []))
     \<and> (\<not> success (facade_response request prompt scene elapsed outcome) \<longleftrightarrow>
        error (facade_response request prompt scene elapsed outcome) \<noteq> None)
     \<and> (success (facade_response request prompt scene elapsed outcome)
        \<and> image_data (facade_response request prompt scene elapsed outcome) \<noteq> None
        \<and> error (facade_response request prompt scene elapsed outcome) = None
      \<or> \<not> success (facade_response request prompt scene elapsed outcome)
        \<and> image_data (facade_response request prompt scene elapsed outcome) = None
        \<and> error (facade_response request prompt scene elapsed outcome) \<noteq> None)
     \<and> ((\<forall>b. outcome = Inr (Some b) \<longrightarrow> take 3 b = jpeg_magic \<or> take 8 b = png_magic) \<longrightarrow>
        (success (facade_response request prompt scene elapsed outcome) \<longleftrightarrow>
           (\<exists>b. image_data (facade_response request prompt scene elapsed outcome) = Some b
                \<and> b \<noteq> [] \<and> (take 3 b = jpeg_magic \<or> take 8 b = png_magic))))"
  proof (cases rule: facade_response_cases [of outcome request prompt scene elapsed])
    case (failure message)
    then show ?thesis by (auto simp: failure_response_fields)
  next
    case (image b)
    then show ?thesis by (auto simp: success_response_fields)
  qed
  from on_generate tie packaging show ?thesis by blast
qed

theorem response_invariant_witness:
  "success (facade_response
       (make_request ''Edge Computing Revolution'' ''edge computing IoT distributed systems''
          ''EdgeTech Solutions'' ''Computing Infrastructure'' None)
       ''a prompt'' ''a scene'' 12 (Inr (Some jpeg_payload)))
   \<and> image_data (facade_response
       (make_request ''Edge Computing Revolution'' ''edge computing IoT distributed systems''
          ''EdgeTech Solutions'' ''Computing Infrastructure'' None)
       ''a prompt'' ''a scene'' 12 (Inr (Some jpeg_payload))) = Some jpeg_payload
   \<and> error (facade_response
       (make_request ''Edge Computing Revolution'' ''edge computing IoT distributed systems''
          ''EdgeTech Solutions'' ''Computing Infrastructure'' None)
       ''a prompt'' ''a scene'' 12 (Inr (Some jpeg_payload))) = None
   \<and> jpeg_payload \<noteq> [] \<and> take 3 jpeg_payload = [0xFF, 0xD8, 0xFF]
   \<and> \<not> success (facade_response
       (make_request ''Edge Computing Revolution'' ''edge computing IoT distributed systems''
          ''EdgeTech Solutions'' ''Computing Infrastructure'' None)
       ''a prompt'' ''a scene'' 12 (Inr None))
   \<and> error (facade_response
       (make_request ''Edge Computing Revolution'' ''edge computing IoT distributed systems''
          ''EdgeTech Solutions'' ''Computing Infrastructure'' None)
       ''a prompt'' ''a scene'' 12 (Inr None)) \<noteq> None
   \<and> fst (generate_image empty_transport
        (make_request ''Edge Computing Revolution'' ''edge computing IoT distributed systems''
           ''EdgeTech Solutions'' ''Computing Infrastructure'' None) initial_world)
     = failure_response ''Failed to generate image after retries'' 38
   \<and> error (fst (generate_image empty_transport
        (make_request ''Edge Computing Revolution'' ''edge computing IoT distributed systems''
           ''EdgeTech Solutions'' ''Computing Infrastructure'' None) initial_world)) \<noteq> None"
proof -
  let ?req = "make_request ''Edge Computing Revolution''
      ''edge computing IoT distributed systems'' ''EdgeTech Solutions''
      ''Computing Infrastructure'' None"
  have p: "jpeg_payload \<noteq> []" and m: "take 3 jpeg_payload = [0xFF, 0xD8, 0xFF]"
    by (simp_all add: jpeg_payload_def jpeg_magic_def)
  have sig: "\<forall>b. (Inr (Some jpeg_payload) :: py_exception + bytes option) = Inr (Some b) \<longrightarrow>
      take 3 b = jpeg_magic \<or> take 8 b = png_magic"
    using m by (simp add: jpeg_magic_def)
  note img = response_invariant [where tr = empty_transport and request = ?req
      and w = initial_world and prompt = "''a prompt''" and scene = "''a scene''"
      and elapsed = 12 and outcome = "Inr (Some jpeg_payload)"]
  from img p have s: "success (facade_response ?req ''a prompt'' ''a scene'' 12
      (Inr (Some jpeg_payload)))"
    by blast
  from img p have d: "image_data (facade_response ?req ''a prompt'' ''a scene'' 12
      (Inr (Some jpeg_payload))) = Some jpeg_payload"
    by blast
  from img s have e: "error (facade_response ?req ''a prompt'' ''a scene'' 12
      (Inr (Some jpeg_payload))) = None"
    by blast
  note none = response_invariant [where tr = empty_transport and request = ?req
      and w = initial_world and prompt = "''a prompt''" and scene = "''a scene''"
      and elapsed = 12 and outcome = "Inr None"]
  from none have ns: "\<not> success (facade_response ?req ''a prompt'' ''a scene'' 12 (Inr None))"
    by simp
  with none have ne: "error (facade_response ?req ''a prompt'' ''a scene'' 12 (Inr None))
      \<noteq> None"
    by blast
  have body: "generate_image_try empty_transport ?req initial_world =
      (Inr (failure_response ''Failed to generate image after retries''
              (38 - clock initial_world)),
       \<lparr> calls = 4, clock = 38, sleeps = [5, 10, 15], latency = (\<lambda>k. 2) \<rparr>)"
    by (simp add: generate_image_try_def empty_scene empty_retry Let_def)
  have "fst (generate_image empty_transport ?req initial_world)
      = failure_response ''Failed to generate image after retries'' (38 - clock initial_world)"
    by (simp add: generate_image_def body)
  then have r: "fst (generate_image empty_transport ?req initial_world)
      = failure_response ''Failed to generate image after retries'' 38"
    by (simp add: initial_world_def)
  then have "\<not> success (fst (generate_image empty_transport ?req initial_world))"
    by (simp add: failure_response_fields)
  with none have ge: "error (fst (generate_image empty_transport ?req initial_world)) \<noteq> None"
    by blast
  from s d e p m ns ne r ge show ?thesis by blast
qed

lemma scene_exception_absorbed:
  "tr TEXT_MODEL (scene_prompt kw ind) (calls w) = Inl e \<Longrightarrow>
   generate_intelligent_scene tr kw ind w =
     (create_intelligent_fallback kw ind,
      snd (generate_content tr TEXT_MODEL (scene_prompt kw ind) w))"
  by (simp add: generate_intelligent_scene_def generate_content_def)

lemma requester_exception_leaves_body:
  "fst (generate_with_retry tr
          (build_professional_prompt request
             (fst (generate_intelligent_scene tr (keyword request)
                     (industry (company_data request)) w)))
          3
          (snd (generate_intelligent_scene tr (keyword request)
                  (industry (company_data request)) w))) = Inl e \<Longrightarrow>
   fst (generate_image_try tr request w) = Inl e"
  by (simp add: generate_image_try_def Let_def split_beta)

lemma body_exception_caught:
  "fst (generate_image_try tr request w) = Inl e \<Longrightarrow>
   generate_image tr request w =
     (failure_response (str_exc e)
        (clock (snd (generate_image_try tr request w)) - clock w),
      snd (generate_image_try tr request w))"
  by (cases "generate_image_try tr request w") (simp add: generate_image_def)

text \<open>
  Claim C3. \<open>generate_image\<close> returns a response for every transport, request and world.
  An exception of the remote call of the scene resolver is absorbed there (the fallback
  scene is used); an exception that the image requester raises leaves the body of the
  \<open>try\<close>; and whenever an exception \<open>e\<close> leaves that body, the result is the failure
  response with \<open>success\<close> false, \<open>error\<close> the message of \<open>e\<close> and the time elapsed since
  the start.
\<close>

theorem facade_error_boundary:
  "(\<exists>resp w'. generate_image tr request w = (resp, w'))
   \<and> (tr TEXT_MODEL (scene_prompt (keyword request) (industry (company_data request)))
          (calls w) = Inl e' \<longrightarrow>
        fst (generate_intelligent_scene tr (keyword request)
               (industry (company_data request)) w) =
          create_intelligent_fallback (keyword request) (industry (company_data request)))
   \<and> (fst (generate_with_retry tr
              (build_professional_prompt request
                 (fst (generate_intelligent_scene tr (keyword request)
                         (industry (company_data request)) w)))
              3
              (snd (generate_intelligent_scene tr (keyword request)
                      (industry (company_data request)) w))) = Inl e \<longrightarrow>
        fst (generate_image_try tr request w) = Inl e)
   \<and> (fst (generate_image_try tr request w) = Inl e \<longrightarrow>
        success (fst (generate_image tr request w)) = False
      \<and> error (fst (generate_image tr request w)) = Some (str_exc e)
      \<and> generation_time_seconds (fst (generate_image tr request w)) =
          clock (snd (generate_image tr request w)) - clock w
      \<and> fst (generate_image tr request w) =
          failure_response (str_exc e) (clock (snd (generate_image tr request w)) - clock w))"
proof (intro conjI impI)
  show "\<exists>resp w'. generate_image tr request w = (resp, w')"
    by (cases "generate_image tr request w") blast
next
  assume "tr TEXT_MODEL (scene_prompt (keyword request) (industry (company_data request)))
      (calls w) = Inl e'"
  then show "fst (generate_intelligent_scene tr (keyword request)
      (industry (company_data request)) w) =
      create_intelligent_fallback (keyword request) (industry (company_data request))"
    by (simp add: scene_exception_absorbed)
next
  assume "fst (generate_with_retry tr
              (build_professional_prompt request
                 (fst (generate_intelligent_scene tr (keyword request)
                         (industry (company_data request)) w)))
              3
              (snd (generate_intelligent_scene tr (keyword request)
                      (industry (company_data request)) w))) = Inl e"
  then show "fst (generate_image_try tr request w) = Inl e"
    by (rule requester_exception_leaves_body)
next
  assume a: "fst (generate_image_try tr request w) = Inl e"
  note r = body_exception_caught [OF a]
  show "success (fst (generate_image tr request w)) = False"
    by (simp add: r failure_response_def ImageResponse_default_def)
  show "error (fst (generate_image tr request w)) = Some (str_exc e)"
    by (simp add: r failure_response_def ImageResponse_default_def)
  show "generation_time_seconds (fst (generate_image tr request w)) =
      clock (snd (generate_image tr request w)) - clock w"
    by (simp add: r failure_response_def ImageResponse_default_def)
  show "fst (generate_image tr request w) =
      failure_response (str_exc e) (clock (snd (generate_image tr request w)) - clock w)"
    by (simp add: r)
qed

lemma raising_scene:
  "generate_intelligent_scene raising_transport kw ind initial_world =
     (create_intelligent_fallback kw ind,
      \<lparr> calls = Suc 0, clock = 2, sleeps = [], latency = (\<lambda>k. 2) \<rparr>)"
  by (simp add: generate_intelligent_scene_def generate_content_def raising_transport_def
      initial_world_def)

lemma raising_retry:
  "generate_with_retry raising_transport prompt 3
     \<lparr> calls = Suc 0, clock = 2, sleeps = [], latency = (\<lambda>k. 2) \<rparr> =
     (Inl (Exception ''503 UNAVAILABLE''),
      \<lparr> calls = 4, clock = 23, sleeps = [5, 10], latency = (\<lambda>k. 2) \<rparr>)"
  by (simp add: generate_with_retry_def generate_content_def sleep_def
      raising_transport_def)

theorem facade_error_boundary_witness:
  "fst (generate_image raising_transport
     (make_request ''Edge Computing Revolution'' ''edge computing IoT distributed systems''
        ''EdgeTech Solutions'' ''Computing Infrastructure'' None) initial_world)
   = failure_response ''503 UNAVAILABLE'' 23
   \<and> error (fst (generate_image raising_transport
     (make_request ''Edge Computing Revolution'' ''edge computing IoT distributed systems''
        ''EdgeTech Solutions'' ''Computing Infrastructure'' None) initial_world))
     = Some ''503 UNAVAILABLE''"
proof -
  let ?req = "make_request ''Edge Computing Revolution''
      ''edge computing IoT distributed systems'' ''EdgeTech Solutions''
      ''Computing Infrastructure'' None"
  have body: "generate_image_try raising_transport ?req initial_world =
      (Inl (Exception ''503 UNAVAILABLE''),
       \<lparr> calls = 4, clock = 23, sleeps = [5, 10], latency = (\<lambda>k. 2) \<rparr>)"
    by (simp add: generate_image_try_def raising_scene raising_retry Let_def)
  then have raised: "fst (generate_image_try raising_transport ?req initial_world) =
      Inl (Exception ''503 UNAVAILABLE'')"
    by simp
  have "clock (snd (generate_image raising_transport ?req initial_world)) = 23"
    by (simp add: generate_image_def body)
  then have w': "clock (snd (generate_image raising_transport ?req initial_world))
      - clock initial_world = 23"
    by (simp add: initial_world_def)
  from raised
    facade_error_boundary [of raising_transport ?req initial_world
      "Exception ''503 UNAVAILABLE''" "Exception ''503 UNAVAILABLE''"]
  have "fst (generate_image raising_transport ?req initial_world) =
      failure_response (str_exc (Exception ''503 UNAVAILABLE''))
        (clock (snd (generate_image raising_transport ?req initial_world))
           - clock initial_world)"
    by blast
  then have "fst (generate_image raising_transport ?req initial_world) =
      failure_response ''503 UNAVAILABLE'' 23"
    by (simp add: w')
  then show ?thesis
    by (simp add: failure_response_def)
qed

subsection \<open>The data URI\<close>

lemma after_comma_data_uri: "after_comma (''data:image/jpeg;base64,'' @ s) = s"
  by (simp add: after_comma_def)

text \<open>
  Claim C9. The response of \<open>generate_image\<close> is the packaging \<open>facade_response\<close> of the
  outcome of the image requester, and for every outcome, whenever the packaged response
  is a success, the requester returned bytes \<open>b\<close> that are its \<open>image_data\<close>, its
  \<open>image_url\<close> is \<open>"data:image/jpeg;base64,"\<close> followed by the Base64 encoding of \<open>b\<close>, and
  decoding the part after the comma gives back \<open>b\<close>. The label is \<open>image/jpeg\<close> also for
  bytes that start with the PNG magic bytes.
\<close>

theorem data_uri_roundtrip:
  "fst (generate_image tr request w) =
     facade_response request (facade_prompt tr request w) (facade_scene tr request w)
       (clock (snd (generate_image tr request w)) - clock w)
       (fst (facade_outcome tr request w))
   \<and> (success (facade_response request prompt scene elapsed outcome) \<longrightarrow>
        (\<exists>b. outcome = Inr (Some b)
           \<and> image_data (facade_response request prompt scene elapsed outcome) = Some b
           \<and> image_url (facade_response request prompt scene elapsed outcome) =
               ''data:image/jpeg;base64,'' @ b64encode b
           \<and> b64decode
                (after_comma (image_url (facade_response request prompt scene elapsed outcome)))
               = Some b))
   \<and> (\<forall>b. outcome = Inr (Some b) \<and> b \<noteq> [] \<and> take 8 b = png_magic \<longrightarrow>
        success (facade_response request prompt scene elapsed outcome)
      \<and> image_url (facade_response request prompt scene elapsed outcome) =
          ''data:image/jpeg;base64,'' @ b64encode b)"
proof (intro conjI)
  show "fst (generate_image tr request w) =
     facade_response request (facade_prompt tr request w) (facade_scene tr request w)
       (clock (snd (generate_image tr request w)) - clock w)
       (fst (facade_outcome tr request w))"
    by (simp add: generate_image_facade_response)
next
  show "success (facade_response request prompt scene elapsed outcome) \<longrightarrow>
        (\<exists>b. outcome = Inr (Some b)
           \<and> image_data (facade_response request prompt scene elapsed outcome) = Some b
           \<and> image_url (facade_response request prompt scene elapsed outcome) =
               ''data:image/jpeg;base64,'' @ b64encode b
           \<and> b64decode
                (after_comma (image_url (facade_response request prompt scene elapsed outcome)))
               = Some b)"
  proof (cases rule: facade_response_cases [of outcome request prompt scene elapsed])
    case (failure message)
    then show ?thesis by (simp add: failure_response_fields)
  next
    case (image b)
    then show ?thesis
      by (simp add: success_response_fields after_comma_data_uri b64_roundtrip
          del: append.simps)
  qed
next
  show "\<forall>b. outcome = Inr (Some b) \<and> b \<noteq> [] \<and> take 8 b = png_magic \<longrightarrow>
        success (facade_response request prompt scene elapsed outcome)
      \<and> image_url (facade_response request prompt scene elapsed outcome) =
          ''data:image/jpeg;base64,'' @ b64encode b"
    by (simp add: facade_response_image success_response_fields)
qed

theorem data_uri_roundtrip_witness:
  "take 8 png_payload = [0x89, 0x50, 0x4E, 0x47, 0x0D, 0x0A, 0x1A, 0x0A]
   \<and> success (facade_response
       (make_request ''Edge Computing Revolution'' ''edge computing IoT distributed systems''
          ''EdgeTech Solutions'' ''Computing Infrastructure'' None)
       ''a prompt'' ''a scene'' 12 (Inr (Some png_payload)))
   \<and> image_data (facade_response
       (make_request ''Edge Computing Revolution'' ''edge computing IoT distributed systems''
          ''EdgeTech Solutions'' ''Computing Infrastructure'' None)
       ''a prompt'' ''a scene'' 12 (Inr (Some png_payload))) = Some png_payload
   \<and> image_url (facade_response
       (make_request ''Edge Computing Revolution'' ''edge computing IoT distributed systems''
          ''EdgeTech Solutions'' ''Computing Infrastructure'' None)
       ''a prompt'' ''a scene'' 12 (Inr (Some png_payload)))
      = ''data:image/jpeg;base64,'' @ b64encode png_payload
   \<and> b64decode (after_comma (image_url (facade_response
       (make_request ''Edge Computing Revolution'' ''edge computing IoT distributed systems''
          ''EdgeTech Solutions'' ''Computing Infrastructure'' None)
       ''a prompt'' ''a scene'' 12 (Inr (Some png_payload))))) = Some png_payload
   \<and> take 35 (''data:image/jpeg;base64,'' @ b64encode png_payload)
      = ''data:image/jpeg;base64,iVBORw0KGgoA''"
proof -
  let ?req = "make_request ''Edge Computing Revolution''
      ''edge computing IoT distributed systems'' ''EdgeTech Solutions''
      ''Computing Infrastructure'' None"
  let ?resp = "facade_response ?req ''a prompt'' ''a scene'' 12 (Inr (Some png_payload))"
  have p: "png_payload \<noteq> []"
    and m: "take 8 png_payload = [0x89, 0x50, 0x4E, 0x47, 0x0D, 0x0A, 0x1A, 0x0A]"
    by (simp_all add: png_payload_def png_magic_def)
  then have m': "take 8 png_payload = png_magic" by (simp add: png_magic_def)
  note t = data_uri_roundtrip [where tr = empty_transport and request = ?req
      and w = initial_world and prompt = "''a prompt''" and scene = "''a scene''"
      and elapsed = 12 and outcome = "Inr (Some png_payload)"]
  from t p m' have s: "success ?resp"
    and u: "image_url ?resp = ''data:image/jpeg;base64,'' @ b64encode png_payload"
    by blast+
  from t s have d: "image_data ?resp = Some png_payload"
    and r: "b64decode (after_comma (image_url ?resp)) = Some png_payload"
    by auto
  have h: "take 35 (''data:image/jpeg;base64,'' @ b64encode png_payload)
      = ''data:image/jpeg;base64,iVBORw0KGgoA''"
    by code_simp
  from m s d u r h show ?thesis by blast
qed

subsection \<open>The constructor\<close>

lemma init_api_key_falsy:
  "\<not> truthy a \<Longrightarrow> init_api_key getenv a = init_api_key getenv None"
  by (simp add: init_api_key_def py_or_def)

text \<open>
  Claim C10. An \<open>api_key\<close> argument that is the empty string gives the constructor the
  same result as no argument: the key is the first non-empty value among the variables
  \<open>GOOGLE_API_KEY\<close>, \<open>GEMINI_API_KEY\<close> and \<open>GOOGLE_GEMINI_API_KEY\<close>, in this order, and the
  \<open>ValueError\<close> of line 48 is raised, before the client is touched, exactly when all
  three are empty or unset.
\<close>

theorem empty_api_key_as_absent:
  "init_api_key getenv (Some '''') = init_api_key getenv None
   \<and> OpenImagen_init genai getenv (Some '''') = OpenImagen_init genai getenv None
   \<and> (truthy (getenv ''GOOGLE_API_KEY'') \<longrightarrow>
        init_api_key getenv (Some '''') = Inr (the (getenv ''GOOGLE_API_KEY'')))
   \<and> (\<not> truthy (getenv ''GOOGLE_API_KEY'') \<and> truthy (getenv ''GEMINI_API_KEY'') \<longrightarrow>
        init_api_key getenv (Some '''') = Inr (the (getenv ''GEMINI_API_KEY'')))
   \<and> (\<not> truthy (getenv ''GOOGLE_API_KEY'') \<and> \<not> truthy (getenv ''GEMINI_API_KEY'')
        \<and> truthy (getenv ''GOOGLE_GEMINI_API_KEY'') \<longrightarrow>
        init_api_key getenv (Some '''') = Inr (the (getenv ''GOOGLE_GEMINI_API_KEY'')))
   \<and> ((\<exists>m. init_api_key getenv (Some '''') = Inl (ValueError m)) \<longleftrightarrow>
        \<not> truthy (getenv ''GOOGLE_API_KEY'') \<and> \<not> truthy (getenv ''GEMINI_API_KEY'')
        \<and> \<not> truthy (getenv ''GOOGLE_GEMINI_API_KEY''))
   \<and> (\<not> truthy (getenv ''GOOGLE_API_KEY'') \<and> \<not> truthy (getenv ''GEMINI_API_KEY'')
        \<and> \<not> truthy (getenv ''GOOGLE_GEMINI_API_KEY'') \<longrightarrow>
        OpenImagen_init genai getenv (Some '''') =
          Inl (ValueError ''Google API key required. Set GOOGLE_API_KEY environment variable or pass api_key parameter.''))"
  by (auto simp: init_api_key_def OpenImagen_init_def get_api_key_def py_or_def Let_def)


theorem empty_api_key_as_absent_witness:
  "init_api_key gemini_env (Some '''') = Inr ''AIza-test-key''
   \<and> init_api_key gemini_env None = Inr ''AIza-test-key''
   \<and> OpenImagen_init None unset_env (Some '''') =
       Inl (ValueError ''Google API key required. Set GOOGLE_API_KEY environment variable or pass api_key parameter.'')"
proof -
  have a: "\<not> truthy (gemini_env ''GOOGLE_API_KEY'') \<and> truthy (gemini_env ''GEMINI_API_KEY'')"
    by (simp add: gemini_env_def)
  have b: "\<not> truthy (unset_env ''GOOGLE_API_KEY'') \<and> \<not> truthy (unset_env ''GEMINI_API_KEY'')
      \<and> \<not> truthy (unset_env ''GOOGLE_GEMINI_API_KEY'')"
    by (simp add: unset_env_def)
  have c: "the (gemini_env ''GEMINI_API_KEY'') = ''AIza-test-key''"
    by (simp add: gemini_env_def)
  from a c empty_api_key_as_absent [of gemini_env None]
  have "init_api_key gemini_env (Some '''') = Inr ''AIza-test-key''
      \<and> init_api_key gemini_env None = Inr ''AIza-test-key''"
    by metis
  moreover from b empty_api_key_as_absent [of unset_env None]
  have "OpenImagen_init None unset_env (Some '''') =
      Inl (ValueError ''Google API key required. Set GOOGLE_API_KEY environment variable or pass api_key parameter.'')"
    by blast
  ultimately show ?thesis by simp
qed

end
